theory Spec2Isabelle
  imports Complex_Main "HOL-Library.Multiset"
begin

section \<open>Python values, exceptions and the libraries the module calls\<close>

text \<open>
  The module \<^verbatim>\<open>utils.py\<close> is a script over numpy, pandas, scipy and lightkurve.
  Every exception of the source is a value of \<open>error\<close>; a computation that can raise
  returns \<open>error + 'a\<close> with \<open>Inl\<close> for the exception.
\<close>

datatype filelength = ListLen "int list" | IntLen nat

datatype error =
    NameError string
  | ValueError string
  | TypeError string
  | IndexError string
  | OverflowError string
  | LibraryError string
  | OSError string
  | RowsException "string list" "filelength list"

definition ebind :: "error + 'a \<Rightarrow> ('a \<Rightarrow> error + 'b) \<Rightarrow> error + 'b" where
  "ebind m f = (case m of Inl e \<Rightarrow> Inl e | Inr x \<Rightarrow> f x)"

text \<open>
  Calls that touch the random generator or the network thread a world \<open>'w\<close>: the same
  call may answer differently the next time.
\<close>

definition wbind ::
  "error + ('a \<times> 'w) \<Rightarrow> ('a \<Rightarrow> 'w \<Rightarrow> error + ('b \<times> 'w)) \<Rightarrow> error + ('b \<times> 'w)" where
  "wbind m f = (case m of Inl e \<Rightarrow> Inl e | Inr (x, w) \<Rightarrow> f x w)"

text \<open>
  numpy's float64 is an abstract type \<open>'f\<close> with the operations the module uses; no
  theorem below depends on how they round. \<open>f_to_int\<close> is Python's \<^verbatim>\<open>int(x)\<close>,
  \<open>f_str\<close> the rendering of a float inside an f-string.
\<close>

record 'f float_ops =
  f_add :: "'f \<Rightarrow> 'f \<Rightarrow> 'f"
  f_sub :: "'f \<Rightarrow> 'f \<Rightarrow> 'f"
  f_mul :: "'f \<Rightarrow> 'f \<Rightarrow> 'f"
  f_div :: "'f \<Rightarrow> 'f \<Rightarrow> 'f"
  f_of_int :: "int \<Rightarrow> 'f"
  f_to_int :: "'f \<Rightarrow> error + int"
  f_isnan :: "'f \<Rightarrow> bool"
  f_isfinite :: "'f \<Rightarrow> bool"
  f_gt :: "'f \<Rightarrow> 'f \<Rightarrow> bool"
  f_eq :: "'f \<Rightarrow> 'f \<Rightarrow> bool"
  f_nan :: "'f"
  f_str :: "'f \<Rightarrow> string"

text \<open>
  One quarter of a light curve is a lightkurve table: one row per cadence, with the
  columns \<^verbatim>\<open>time\<close>, \<^verbatim>\<open>flux\<close>, \<^verbatim>\<open>flux_err\<close> and \<^verbatim>\<open>quality\<close>. The
  source reads whole columns (\<^verbatim>\<open>lc.flux.value\<close>).
\<close>

record 'f cadence =
  c_time :: "'f"
  c_flux :: "'f"
  c_flux_err :: "'f"
  c_quality :: "'f"

type_synonym 'f lightcurve = "'f cadence list"

definition lc_time :: "'f lightcurve \<Rightarrow> 'f list" where
  "lc_time lc = map c_time lc"

definition lc_flux :: "'f lightcurve \<Rightarrow> 'f list" where
  "lc_flux lc = map c_flux lc"

definition lc_flux_err :: "'f lightcurve \<Rightarrow> 'f list" where
  "lc_flux_err lc = map c_flux_err lc"

definition lc_quality :: "'f lightcurve \<Rightarrow> 'f list" where
  "lc_quality lc = map c_quality lc"

record koi_row =
  kepid :: int
  koi_disposition :: string

datatype 'f cell = FloatCell 'f | IntCell int

type_synonym 'f csvrow = "'f cell list"

text \<open>
  The library calls whose results the module only passes on. \<open>curve_fit\<close> is scipy's,
  given the model function; \<open>interp_at xp fp x\<close> is the value of \<^verbatim>\<open>np.interp\<close> at one
  point and \<open>linspace_at start stop num k\<close> the \<open>k\<close>-th sample of \<^verbatim>\<open>np.linspace\<close>;
  \<open>search_download\<close> is \<^verbatim>\<open>lk.search_lightcurve(...).download_all()\<close>, which answers
  \<^verbatim>\<open>None\<close> for an empty search; \<open>read_koi_table\<close> is the \<^verbatim>\<open>pd.read_csv\<close> of the KOI
  table; \<open>read_csv_len\<close> is \<^verbatim>\<open>len(pd.read_csv(path, header=None, delimiter=','))\<close> on
  the rows a file holds; \<open>open_new\<close> is what the operating system answers to
  \<^verbatim>\<open>open(path, 'w')\<close> for a path that does not exist: nothing when it creates the file,
  or the error it raises (FileNotFoundError when the directory is missing,
  PermissionError when it cannot be written); \<open>bls_fold\<close> is the lightkurve chain of lines 211 to 223
  (stitch, flatten, remove_outliers, periodogram, fold), giving the folded time and
  flux.
\<close>

record ('f, 'w) library =
  arith :: "'f float_ops"
  curve_fit :: "('f list \<Rightarrow> 'f \<Rightarrow> 'f \<Rightarrow> 'f list) \<Rightarrow> 'f list \<Rightarrow> 'f list \<Rightarrow> error + ('f \<times> 'f)"
  interp_at :: "'f list \<Rightarrow> 'f list \<Rightarrow> 'f \<Rightarrow> 'f"
  linspace_at :: "'f \<Rightarrow> 'f \<Rightarrow> nat \<Rightarrow> nat \<Rightarrow> 'f"
  random_choice :: "int list \<Rightarrow> int \<Rightarrow> 'w \<Rightarrow> error + (int list \<times> 'w)"
  random_permutation :: "nat \<Rightarrow> 'w \<Rightarrow> error + (nat list \<times> 'w)"
  read_koi_table :: "'w \<Rightarrow> error + (koi_row list \<times> 'w)"
  search_download :: "int \<Rightarrow> 'w \<Rightarrow> error + ('f lightcurve list option \<times> 'w)"
  read_csv_len :: "'f csvrow list \<Rightarrow> error + nat"
  open_new :: "string \<Rightarrow> error option"
  bls_fold :: "'f lightcurve list option \<Rightarrow> error + ('f list \<times> 'f list)"

section \<open>numpy array operations\<close>

text \<open>
  A one-dimensional array is a list. An elementwise binary operation broadcasts an
  array of length one and raises on any other length mismatch.
\<close>

definition np_elementwise :: "('a \<Rightarrow> 'b \<Rightarrow> 'c) \<Rightarrow> 'a list \<Rightarrow> 'b list \<Rightarrow> error + 'c list" where
  "np_elementwise f xs ys =
     (if length xs = length ys then Inr (map2 f xs ys)
      else if length xs = 1 then Inr (map (f (hd xs)) ys)
      else if length ys = 1 then Inr (map (\<lambda>x. f x (hd ys)) xs)
      else Inl (ValueError ''operands could not be broadcast together''))"

definition np_divide :: "('f, 'w) library \<Rightarrow> 'f list \<Rightarrow> 'f list \<Rightarrow> error + 'f list" where
  "np_divide X xs ys = np_elementwise (f_div (arith X)) xs ys"

text \<open>Boolean-mask selection \<^verbatim>\<open>xs[sel]\<close>: the mask must have the array's length.\<close>

definition np_select :: "'a list \<Rightarrow> bool list \<Rightarrow> error + 'a list" where
  "np_select xs sel =
     (if length sel = length xs then Inr (map fst (filter snd (zip xs sel)))
      else Inl (IndexError ''boolean index did not match indexed array''))"

text \<open>Boolean-mask assignment of a scalar, \<^verbatim>\<open>xs[sel] = v\<close>.\<close>

definition np_assign_where :: "'a list \<Rightarrow> bool list \<Rightarrow> 'a \<Rightarrow> error + 'a list" where
  "np_assign_where xs sel v =
     (if length sel = length xs then Inr (map2 (\<lambda>x m. if m then v else x) xs sel)
      else Inl (IndexError ''boolean index did not match indexed array''))"

section \<open>linear_func and stitch\<close>

text \<open>\<^verbatim>\<open>return a*x + b\<close>, with \<open>x\<close> an array and \<open>a\<close>, \<open>b\<close> scalars.\<close>

definition linear_func :: "('f, 'w) library \<Rightarrow> 'f list \<Rightarrow> 'f \<Rightarrow> 'f \<Rightarrow> 'f list" where
  "linear_func X x a b = map (\<lambda>xi. f_add (arith X) (f_mul (arith X) a xi) b) x"

text \<open>
  The body of the loop of \<open>stitch\<close> for one quarter: the relative error, the mask of
  the flux values that are not NaN, the fit on the masked values, the trend over the
  whole quarter, and the four \<^verbatim>\<open>np.hstack\<close> calls onto the running totals.
\<close>

type_synonym 'f arrays = "'f list \<times> 'f list \<times> 'f list \<times> 'f list"

definition stitch_step :: "('f, 'w) library \<Rightarrow> 'f arrays \<Rightarrow> 'f lightcurve \<Rightarrow> error + 'f arrays" where
  "stitch_step X tot lc =
     (case tot of (tot_time, tot_flux, tot_flux_err, tot_qual) \<Rightarrow>
      let flux = lc_flux lc;
          time = lc_time lc;
          flux_err = lc_flux_err lc;
          qual = lc_quality lc
      in ebind (np_divide X flux_err flux) (\<lambda>rel_flux_err.
         let nan_mask = map (\<lambda>v. \<not> f_isnan (arith X) v) flux
         in ebind (np_select time nan_mask) (\<lambda>time_m.
            ebind (np_select flux nan_mask) (\<lambda>flux_m.
            ebind (curve_fit X (linear_func X) time_m flux_m) (\<lambda>popt.
            let linear_trend = linear_func X time (fst popt) (snd popt)
            in ebind (np_divide X flux linear_trend) (\<lambda>norm.
               Inr (tot_time @ time, tot_flux @ norm,
                    tot_flux_err @ rel_flux_err, tot_qual @ qual)))))))"

fun stitch_loop :: "('f, 'w) library \<Rightarrow> 'f arrays \<Rightarrow> 'f lightcurve list \<Rightarrow> error + 'f arrays" where
  "stitch_loop X tot [] = Inr tot"
| "stitch_loop X tot (lc # lcs) = ebind (stitch_step X tot lc) (\<lambda>tot'. stitch_loop X tot' lcs)"

definition stitch :: "('f, 'w) library \<Rightarrow> 'f lightcurve list \<Rightarrow> error + 'f arrays" where
  "stitch X lc_collection = stitch_loop X ([], [], [], []) lc_collection"


text \<open>
  What \<^verbatim>\<open>stitch(curve)\<close> does on the answer of the download: \<^verbatim>\<open>len(None)\<close> raises.
\<close>

definition stitch_obj :: "('f, 'w) library \<Rightarrow> 'f lightcurve list option \<Rightarrow> error + 'f arrays" where
  "stitch_obj X curve =
     (case curve of
        None \<Rightarrow> Inl (TypeError ''object of type NoneType has no len()'')
      | Some lc_collection \<Rightarrow> stitch X lc_collection)"

section \<open>Choosing the stars (lines 88 to 100 and 160 to 172)\<close>

text \<open>
  \<^verbatim>\<open>int(n_curves*(1-pct_transit/100))\<close> and \<^verbatim>\<open>int(n_curves*(pct_transit/100))\<close>, with
  \<open>n_curves\<close> an integer and \<open>pct_transit\<close> a float.
\<close>

definition size_nontransit :: "('f, 'w) library \<Rightarrow> int \<Rightarrow> 'f \<Rightarrow> error + int" where
  "size_nontransit X n_curves pct_transit =
     f_to_int (arith X)
       (f_mul (arith X) (f_of_int (arith X) n_curves)
          (f_sub (arith X) (f_of_int (arith X) 1)
             (f_div (arith X) pct_transit (f_of_int (arith X) 100))))"

definition size_transit :: "('f, 'w) library \<Rightarrow> int \<Rightarrow> 'f \<Rightarrow> error + int" where
  "size_transit X n_curves pct_transit =
     f_to_int (arith X)
       (f_mul (arith X) (f_of_int (arith X) n_curves)
          (f_div (arith X) pct_transit (f_of_int (arith X) 100)))"

definition ids_with :: "string \<Rightarrow> koi_row list \<Rightarrow> int list" where
  "ids_with disposition data = map kepid (filter (\<lambda>r. koi_disposition r = disposition) data)"

text \<open>Indexing with an array of indices, \<^verbatim>\<open>xs[idx]\<close>.\<close>

definition np_take :: "'a list \<Rightarrow> nat list \<Rightarrow> error + 'a list" where
  "np_take xs idx =
     (if list_all (\<lambda>j. j < length xs) idx then Inr (map (\<lambda>j. xs ! j) idx)
      else Inl (IndexError ''index out of bounds''))"

definition lift_e :: "error + 'a \<Rightarrow> 'w \<Rightarrow> error + ('a \<times> 'w)" where
  "lift_e m w = ebind m (\<lambda>x. Inr (x, w))"

text \<open>
  The two functions start with the same thirteen lines; \<open>select_ids\<close> is that block.
  It gives \<open>all_ids\<close> (shuffled) and \<open>transit_ids\<close>.
\<close>

definition select_ids ::
  "('f, 'w) library \<Rightarrow> int \<Rightarrow> 'f \<Rightarrow> 'w \<Rightarrow> error + ((int list \<times> int list) \<times> 'w)" where
  "select_ids X n_curves pct_transit w0 =
     wbind (read_koi_table X w0) (\<lambda>data w1.
     let all_nontransit_ids = ids_with ''FALSE POSITIVE'' data in
     wbind (lift_e (size_nontransit X n_curves pct_transit) w1) (\<lambda>k_nontransit w2.
     wbind (random_choice X all_nontransit_ids k_nontransit w2) (\<lambda>nontransit_ids w3.
     let all_ids = nontransit_ids;
         all_transit_ids = ids_with ''CONFIRMED'' data in
     wbind (lift_e (size_transit X n_curves pct_transit) w3) (\<lambda>k_transit w4.
     wbind (random_choice X all_transit_ids k_transit w4) (\<lambda>transit_ids w5.
     let all_ids = all_ids @ transit_ids in
     wbind (random_permutation X (length all_ids) w5) (\<lambda>perm w6.
     wbind (lift_e (np_take all_ids perm) w6) (\<lambda>all_ids w7.
     Inr ((all_ids, transit_ids), w7))))))))"

section \<open>Marking poor data and forcing the length\<close>

text \<open>
  Lines 116 and 117 (232 and 233): the product of five boolean arrays, then
  \<^verbatim>\<open>flux[np.invert(good)] = np.NaN\<close>. The four local arrays go in and come out; only
  \<open>flux\<close> is assigned.
\<close>

definition good_mask :: "('f, 'w) library \<Rightarrow> 'f arrays \<Rightarrow> error + bool list" where
  "good_mask X a =
     (case a of (time, flux, flux_err, quality) \<Rightarrow>
      let zero = f_of_int (arith X) 0 in
      ebind (np_elementwise (\<and>) (map (\<lambda>q. f_eq (arith X) q zero) quality)
                                  (map (\<lambda>e. f_gt (arith X) e zero) flux_err)) (\<lambda>g1.
      ebind (np_elementwise (\<and>) g1 (map (f_isfinite (arith X)) time)) (\<lambda>g2.
      ebind (np_elementwise (\<and>) g2 (map (f_isfinite (arith X)) flux)) (\<lambda>g3.
      np_elementwise (\<and>) g3 (map (f_isfinite (arith X)) flux_err)))))"

definition set_poor_quality_nan :: "('f, 'w) library \<Rightarrow> 'f arrays \<Rightarrow> error + 'f arrays" where
  "set_poor_quality_nan X a =
     (case a of (time, flux, flux_err, quality) \<Rightarrow>
      ebind (good_mask X a) (\<lambda>good.
      ebind (np_assign_where flux (map Not good) (f_nan (arith X))) (\<lambda>flux'.
      Inr (time, flux', flux_err, quality))))"

definition np_linspace :: "('f, 'w) library \<Rightarrow> 'f \<Rightarrow> 'f \<Rightarrow> int \<Rightarrow> error + 'f list" where
  "np_linspace X start stop num =
     (if num < 0 then Inl (ValueError ''Number of samples must be non-negative'')
      else Inr (map (linspace_at X start stop (nat num)) [0..<nat num]))"

definition np_interp :: "('f, 'w) library \<Rightarrow> 'f list \<Rightarrow> 'f list \<Rightarrow> 'f list \<Rightarrow> error + 'f list" where
  "np_interp X x xp fp =
     (if xp = [] then Inl (ValueError ''array of sample points is empty'')
      else if length fp \<noteq> length xp then Inl (ValueError ''fp and xp are not of the same length'')
      else Inr (map (interp_at X xp fp) x))"

text \<open>
  \<^verbatim>\<open>np.interp(np.linspace(0,n_timesteps-1,n_timesteps),
  np.linspace(0,n_timesteps-1,len(ys)), ys)\<close>
\<close>

definition resample :: "('f, 'w) library \<Rightarrow> int \<Rightarrow> 'f list \<Rightarrow> error + 'f list" where
  "resample X n_timesteps ys =
     (let lo = f_of_int (arith X) 0; hi = f_of_int (arith X) (n_timesteps - 1) in
      ebind (np_linspace X lo hi n_timesteps) (\<lambda>x.
      ebind (np_linspace X lo hi (int (length ys))) (\<lambda>xp.
      np_interp X x xp ys)))"

text \<open>The slice \<^verbatim>\<open>ys[0:n]\<close>; a negative \<open>n\<close> counts from the end.\<close>

definition py_slice_to :: "int \<Rightarrow> 'a list \<Rightarrow> 'a list" where
  "py_slice_to n ys = (if 0 \<le> n then take (nat n) ys else take (nat (int (length ys) + n)) ys)"

text \<open>
  Lines 119 to 124 (235 to 240): two independent \<^verbatim>\<open>if\<close> statements on
  \<open>downsize_method\<close>; any other method leaves both arrays as they are.
\<close>

definition force_length ::
  "('f, 'w) library \<Rightarrow> string \<Rightarrow> int \<Rightarrow> 'f list \<times> 'f list \<Rightarrow> error + ('f list \<times> 'f list)" where
  "force_length X downsize_method n_timesteps tf =
     (case tf of (time, flux) \<Rightarrow>
      ebind (if downsize_method = ''interpolate''
             then ebind (resample X n_timesteps flux) (\<lambda>flux'.
                  ebind (resample X n_timesteps time) (\<lambda>time'. Inr (time', flux')))
             else Inr (time, flux)) (\<lambda>tf'.
      if downsize_method = ''truncate''
      then Inr (py_slice_to n_timesteps (fst tf'), py_slice_to n_timesteps (snd tf'))
      else Inr tf'))"

section \<open>Names\<close>

text \<open>
  A global name is looked up when the line that mentions it runs: first in the module's
  globals, then among the builtins, and a name in neither raises NameError. The objects
  are the ones the two functions can meet: an integer, a builtin, an imported module, a
  function, and callables of the three shapes that lines 205, 208 and 224 call.
\<close>

datatype 'f pyobj =
    IntObj int
  | BuiltinObj string
  | ModuleObj string
  | FunctionObj string
  | StitchFn "'f lightcurve list option \<Rightarrow> error + 'f arrays"
  | MedfiltFn "'f list \<Rightarrow> int \<Rightarrow> error + 'f list"
  | BinnedFn "'f list \<Rightarrow> 'f list \<Rightarrow> int \<Rightarrow> error + ('f list \<times> 'f list)"

type_synonym 'f globals = "string \<rightharpoonup> 'f pyobj"

text \<open>The builtins the module mentions.\<close>

definition py_builtins :: "string list" where
  "py_builtins = [''id'', ''int'', ''len'', ''range'', ''print'', ''open'', ''all'', ''Exception'']"

definition resolve :: "'f globals \<Rightarrow> string \<Rightarrow> error + 'f pyobj" where
  "resolve G x =
     (case G x of
        Some v \<Rightarrow> Inr v
      | None \<Rightarrow> if x \<in> set py_builtins then Inr (BuiltinObj x) else Inl (NameError x))"

text \<open>
  The globals after \<^verbatim>\<open>utils.py\<close> is imported: six names bound by the \<^verbatim>\<open>import\<close>
  statements of lines 7 to 12 and four by the \<^verbatim>\<open>def\<close> statements.
\<close>

definition module_globals :: "'f globals" where
  "module_globals =
     map_of [(''np'', ModuleObj ''numpy''), (''pd'', ModuleObj ''pandas''),
             (''lk'', ModuleObj ''lightkurve''), (''curve_fit'', FunctionObj ''scipy.optimize.curve_fit''),
             (''csv'', ModuleObj ''csv''), (''os'', ModuleObj ''os''),
             (''linear_func'', FunctionObj ''linear_func''), (''stitch'', FunctionObj ''stitch''),
             (''collect_curves'', FunctionObj ''collect_curves''),
             (''collect_curves_tofiles'', FunctionObj ''collect_curves_tofiles'')]"

text \<open>\<^verbatim>\<open>v in arr\<close> for an integer array: some element equals \<open>v\<close>; no integer equals a function.\<close>

definition np_contains :: "int list \<Rightarrow> 'f pyobj \<Rightarrow> bool" where
  "np_contains arr v = (case v of IntObj k \<Rightarrow> k \<in> set arr | _ \<Rightarrow> False)"

definition not_callable :: "error" where
  "not_callable = TypeError ''object is not callable with these arguments''"

definition call_stitch :: "'f pyobj \<Rightarrow> 'f lightcurve list option \<Rightarrow> error + 'f arrays" where
  "call_stitch f curve = (case f of StitchFn g \<Rightarrow> g curve | _ \<Rightarrow> Inl not_callable)"

definition call_medfilt :: "'f pyobj \<Rightarrow> 'f list \<Rightarrow> int \<Rightarrow> error + 'f list" where
  "call_medfilt f ys k = (case f of MedfiltFn g \<Rightarrow> g ys k | _ \<Rightarrow> Inl not_callable)"

definition call_binned :: "'f pyobj \<Rightarrow> 'f list \<Rightarrow> 'f list \<Rightarrow> int \<Rightarrow> error + ('f list \<times> 'f list)" where
  "call_binned f xs ys bins = (case f of BinnedFn g \<Rightarrow> g xs ys bins | _ \<Rightarrow> Inl not_callable)"


section \<open>collect_curves\<close>

text \<open>\<^verbatim>\<open>np.zeros((rows, cols))\<close>, and the assignment of a row, which broadcasts.\<close>

definition np_zeros2 :: "('f, 'w) library \<Rightarrow> nat \<Rightarrow> int \<Rightarrow> error + 'f list list" where
  "np_zeros2 X rows cols =
     (if cols < 0 then Inl (ValueError ''negative dimensions are not allowed'')
      else Inr (replicate rows (replicate (nat cols) (f_of_int (arith X) 0))))"

definition np_set_row :: "'a list list \<Rightarrow> nat \<Rightarrow> 'a list \<Rightarrow> error + 'a list list" where
  "np_set_row arr i v =
     (if \<not> i < length arr then Inl (IndexError ''index is out of bounds for axis 0'')
      else if length v = length (arr ! i) then Inr (arr[i := v])
      else if length v = 1 then Inr (arr[i := replicate (length (arr ! i)) (hd v)])
      else Inl (ValueError ''could not broadcast input array''))"

definition np_set_item :: "'a list \<Rightarrow> nat \<Rightarrow> 'a \<Rightarrow> error + 'a list" where
  "np_set_item arr i v =
     (if \<not> i < length arr then Inl (IndexError ''index is out of bounds for axis 0'')
      else Inr (arr[i := v]))"

text \<open>
  Lines 112 to 126 for one star: download, stitch, mark, force the length, and the
  label \<^verbatim>\<open>int(1) if id in transit_ids else int(0)\<close>. No local or global variable is
  called \<^verbatim>\<open>id\<close> (the loop variable is \<^verbatim>\<open>star\<close>), so the name is looked up like any
  other.
\<close>

definition collect_star ::
  "'f globals \<Rightarrow> ('f, 'w) library \<Rightarrow> string \<Rightarrow> int \<Rightarrow> int list \<Rightarrow> int \<Rightarrow> 'w
     \<Rightarrow> error + (('f list \<times> 'f list \<times> int) \<times> 'w)" where
  "collect_star G X downsize_method n_timesteps transit_ids star w0 =
     wbind (search_download X star w0) (\<lambda>curve w1.
     lift_e
       (ebind (stitch_obj X curve) (\<lambda>a.
        ebind (set_poor_quality_nan X a) (\<lambda>a'.
        case a' of (time, flux, flux_err, quality) \<Rightarrow>
        ebind (force_length X downsize_method n_timesteps (time, flux)) (\<lambda>tf.
        ebind (resolve G ''id'') (\<lambda>id_obj.
        let label = (if np_contains transit_ids id_obj then 1 else 0)
        in Inr (fst tf, snd tf, label)))))) w1)"

type_synonym 'f tables = "'f list list \<times> 'f list list \<times> 'f list"

text \<open>Lines 128 to 130: the three assignments at index \<open>i\<close>, times first.\<close>

definition store_star ::
  "('f, 'w) library \<Rightarrow> 'f tables \<Rightarrow> nat \<Rightarrow> 'f list \<times> 'f list \<times> int \<Rightarrow> error + 'f tables" where
  "store_star X tabs i r =
     (case tabs of (all_curves, all_times, all_labels) \<Rightarrow>
      case r of (time, flux, label) \<Rightarrow>
      ebind (np_set_row all_times i time) (\<lambda>all_times'.
      ebind (np_set_row all_curves i flux) (\<lambda>all_curves'.
      ebind (np_set_item all_labels i (f_of_int (arith X) label)) (\<lambda>all_labels'.
      Inr (all_curves', all_times', all_labels')))))"

fun collect_loop ::
  "'f globals \<Rightarrow> ('f, 'w) library \<Rightarrow> string \<Rightarrow> int \<Rightarrow> int list \<Rightarrow> int list \<Rightarrow> 'f tables \<Rightarrow> nat \<Rightarrow> 'w
     \<Rightarrow> error + ('f tables \<times> 'w)" where
  "collect_loop G X downsize_method n_timesteps transit_ids [] tabs i w = Inr (tabs, w)"
| "collect_loop G X downsize_method n_timesteps transit_ids (star # rest) tabs i w =
     wbind (collect_star G X downsize_method n_timesteps transit_ids star w) (\<lambda>r w'.
     wbind (lift_e (store_star X tabs i r) w') (\<lambda>tabs' w''.
     collect_loop G X downsize_method n_timesteps transit_ids rest tabs' (i + 1) w''))"

text \<open>
  The result is \<open>(all_curves, all_times, all_labels)\<close>. The globals are those at the
  time of the call; \<open>module_globals\<close> are the ones the file itself sets up.
\<close>

definition collect_curves ::
  "'f globals \<Rightarrow> ('f, 'w) library \<Rightarrow> int \<Rightarrow> int \<Rightarrow> string \<Rightarrow> 'f \<Rightarrow> 'w \<Rightarrow> error + ('f tables \<times> 'w)" where
  "collect_curves G X n_curves n_timesteps downsize_method pct_transit w0 =
     wbind (select_ids X n_curves pct_transit w0) (\<lambda>sel w1.
     case sel of (all_ids, transit_ids) \<Rightarrow>
     wbind (lift_e (np_zeros2 X (length all_ids) n_timesteps) w1) (\<lambda>all_curves w2.
     wbind (lift_e (np_zeros2 X (length all_ids) n_timesteps) w2) (\<lambda>all_times w3.
     let all_labels = replicate (length all_ids) (f_of_int (arith X) 0)
     in collect_loop G X downsize_method n_timesteps transit_ids all_ids
          (all_curves, all_times, all_labels) 0 w3)))"

section \<open>collect_curves_tofiles\<close>

text \<open>The file system: the csv rows each existing path holds.\<close>

type_synonym 'f files = "string \<rightharpoonup> 'f csvrow list"

fun str_nat :: "nat \<Rightarrow> string" where
  "str_nat n = (if n < 10 then [char_of (48 + n)] else str_nat (n div 10) @ [char_of (48 + n mod 10)])"

definition str_int :: "int \<Rightarrow> string" where
  "str_int i = (if i < 0 then CHR ''-'' # str_nat (nat (- i)) else str_nat (nat i))"

text \<open>\<^verbatim>\<open>f"{savepath}/{tag}_all_{n_timesteps}_{pct_transit}.csv"\<close>\<close>

definition filepath_of :: "('f, 'w) library \<Rightarrow> string \<Rightarrow> string \<Rightarrow> int \<Rightarrow> 'f \<Rightarrow> string" where
  "filepath_of X savepath tag n_timesteps pct_transit =
     savepath @ ''/'' @ tag @ ''_all_'' @ str_int n_timesteps @ ''_'' @ f_str (arith X) pct_transit @ ''.csv''"

text \<open>
  Lines 177 to 186, one round per tag: a path that does not exist is opened for
  writing, which creates it empty or raises, and its length recorded as the list
  \<^verbatim>\<open>[0]\<close>; a path that exists has the number of rows pandas reads from it recorded.
\<close>

fun measure_files ::
  "('f, 'w) library \<Rightarrow> string \<Rightarrow> int \<Rightarrow> 'f \<Rightarrow> string list \<Rightarrow> string list \<Rightarrow> filelength list \<Rightarrow> 'f files
     \<Rightarrow> 'f files \<times> (error + (string list \<times> filelength list))" where
  "measure_files X savepath n_timesteps pct_transit [] filepaths filelengths fs =
     (fs, Inr (filepaths, filelengths))"
| "measure_files X savepath n_timesteps pct_transit (tag # tags) filepaths filelengths fs =
     (let filepath = filepath_of X savepath tag n_timesteps pct_transit in
      case fs filepath of
        None \<Rightarrow>
          (case open_new X filepath of
             Some e \<Rightarrow> (fs, Inl e)
           | None \<Rightarrow>
               measure_files X savepath n_timesteps pct_transit tags
                 (filepaths @ [filepath]) (filelengths @ [ListLen [0]]) (fs(filepath \<mapsto> [])))
      | Some rows \<Rightarrow>
          (case read_csv_len X rows of
             Inl e \<Rightarrow> (fs, Inl e)
           | Inr n \<Rightarrow>
               measure_files X savepath n_timesteps pct_transit tags
                 (filepaths @ [filepath]) (filelengths @ [IntLen n]) fs))"

text \<open>Lines 187 and 188. Python's \<^verbatim>\<open>==\<close> between a list and an integer is False.\<close>

definition same_lengths :: "filelength list \<Rightarrow> bool" where
  "same_lengths filelengths = list_all (\<lambda>element. element = hd filelengths) filelengths"

definition check_files ::
  "('f, 'w) library \<Rightarrow> string \<Rightarrow> int \<Rightarrow> 'f \<Rightarrow> 'f files \<Rightarrow> 'f files \<times> (error + string list)" where
  "check_files X savepath n_timesteps pct_transit fs =
     (case measure_files X savepath n_timesteps pct_transit [''flux'', ''time'', ''labels''] [] [] fs of
        (fs', Inl e) \<Rightarrow> (fs', Inl e)
      | (fs', Inr (filepaths, filelengths)) \<Rightarrow>
          if \<not> same_lengths filelengths then (fs', Inl (RowsException filepaths filelengths))
          else (fs', Inr filepaths))"

text \<open>
  Lines 198 to 244 for one star, up to the three \<^verbatim>\<open>writerow\<close> calls: the rows to write
  (flux, time, label), or the exception. The names \<^verbatim>\<open>stitch_quarters\<close>, \<^verbatim>\<open>medfilt\<close>
  and \<^verbatim>\<open>binned_statistic\<close> are looked up in the globals when their line runs.
\<close>

definition tofiles_star ::
  "'f globals \<Rightarrow> ('f, 'w) library \<Rightarrow> int \<Rightarrow> string \<Rightarrow> bool \<Rightarrow> bool \<Rightarrow> int list \<Rightarrow> int \<Rightarrow> 'w
     \<Rightarrow> error + (('f csvrow \<times> 'f csvrow \<times> 'f csvrow) \<times> 'w)" where
  "tofiles_star G X n_timesteps downsize_method phase_fold smooth transit_ids star w0 =
     (let label = (if np_contains transit_ids (IntObj star :: 'f pyobj) then 1 else 0) in
      wbind (search_download X star w0) (\<lambda>curve w1.
      lift_e
        (ebind (resolve G ''stitch_quarters'') (\<lambda>stitch_quarters.
         ebind (call_stitch stitch_quarters curve) (\<lambda>a.
         case a of (time, flux, flux_err, quality) \<Rightarrow>
         ebind (if smooth
                then ebind (resolve G ''medfilt'') (\<lambda>medfilt.
                     ebind (call_medfilt medfilt flux 51) (\<lambda>m. np_divide X flux m))
                else Inr flux) (\<lambda>flux.
         if phase_fold
         then ebind (bls_fold X curve) (\<lambda>folded.
              ebind (resolve G ''binned_statistic'') (\<lambda>binned_statistic.
              ebind (call_binned binned_statistic (fst folded) (snd folded) n_timesteps) (\<lambda>b.
              let folded_smoothed_time = drop 1 (snd b) in
              ebind (resolve G ''medfilt'') (\<lambda>medfilt.
              ebind (call_medfilt medfilt (fst b) 3) (\<lambda>folded_smoothed_flux.
              Inr (map FloatCell folded_smoothed_flux, map FloatCell folded_smoothed_time,
                   [IntCell label]))))))
         else ebind (set_poor_quality_nan X (time, flux, flux_err, quality)) (\<lambda>a'.
              ebind (force_length X downsize_method n_timesteps (fst a', fst (snd a'))) (\<lambda>tf.
              Inr (map FloatCell (snd tf), map FloatCell (fst tf), [IntCell label]))))))) w1))"

definition writerow :: "'f files \<Rightarrow> string \<Rightarrow> 'f csvrow \<Rightarrow> 'f files" where
  "writerow fs path row = fs(path \<mapsto> (case fs path of None \<Rightarrow> [] | Some rows \<Rightarrow> rows) @ [row])"

text \<open>
  The loop of line 197 inside the \<^verbatim>\<open>with\<close> block. The block closes the three files
  on the way out, return or exception, so the file system that comes back holds
  every row written. The result is the file system and either the exception or the
  world after the last star.
\<close>

fun tofiles_loop ::
  "'f globals \<Rightarrow> ('f, 'w) library \<Rightarrow> int \<Rightarrow> string \<Rightarrow> bool \<Rightarrow> bool \<Rightarrow> int list
     \<Rightarrow> string \<times> string \<times> string \<Rightarrow> int list \<Rightarrow> 'f files \<Rightarrow> 'w \<Rightarrow> 'f files \<times> (error + 'w)" where
  "tofiles_loop G X n_timesteps downsize_method phase_fold smooth transit_ids paths [] fs w =
     (fs, Inr w)"
| "tofiles_loop G X n_timesteps downsize_method phase_fold smooth transit_ids paths (star # rest) fs w =
     (case tofiles_star G X n_timesteps downsize_method phase_fold smooth transit_ids star w of
        Inl e \<Rightarrow> (fs, Inl e)
      | Inr (rows, w') \<Rightarrow>
          (case paths of (p1, p2, p3) \<Rightarrow>
           case rows of (flux_row, time_row, label_row) \<Rightarrow>
           tofiles_loop G X n_timesteps downsize_method phase_fold smooth transit_ids paths rest
             (writerow (writerow (writerow fs p1 flux_row) p2 time_row) p3 label_row) w'))"

definition collect_curves_tofiles ::
  "'f globals \<Rightarrow> ('f, 'w) library \<Rightarrow> int \<Rightarrow> int \<Rightarrow> string \<Rightarrow> bool \<Rightarrow> bool \<Rightarrow> 'f \<Rightarrow> string
     \<Rightarrow> 'f files \<Rightarrow> 'w \<Rightarrow> 'f files \<times> (error + 'w)" where
  "collect_curves_tofiles G X n_curves n_timesteps downsize_method phase_fold smooth pct_transit savepath fs w0 =
     (case select_ids X n_curves pct_transit w0 of
        Inl e \<Rightarrow> (fs, Inl e)
      | Inr ((all_ids, transit_ids), w1) \<Rightarrow>
          (case check_files X savepath n_timesteps pct_transit fs of
             (fs', Inl e) \<Rightarrow> (fs', Inl e)
           | (fs', Inr filepaths) \<Rightarrow>
               (case filepaths of
                  [p1, p2, p3] \<Rightarrow>
                    tofiles_loop G X n_timesteps downsize_method phase_fold smooth transit_ids
                      (p1, p2, p3) all_ids fs' w1
                | _ \<Rightarrow> (fs', Inl (IndexError ''list index out of range'')))))"


section \<open>What one quarter contributes\<close>

text \<open>
  The three per-quarter quantities of the loop of \<open>stitch\<close>, written without the
  running totals: the fit on the cadences whose flux is not NaN, the flux over the
  trend, and the relative error.
\<close>

definition quarter_fit :: "('f, 'w) library \<Rightarrow> 'f lightcurve \<Rightarrow> error + ('f \<times> 'f)" where
  "quarter_fit X lc =
     (let kept = filter (\<lambda>c. \<not> f_isnan (arith X) (c_flux c)) lc
      in curve_fit X (linear_func X) (map c_time kept) (map c_flux kept))"

definition detrended :: "('f, 'w) library \<Rightarrow> 'f lightcurve \<Rightarrow> 'f \<times> 'f \<Rightarrow> 'f list" where
  "detrended X lc popt =
     map (\<lambda>c. f_div (arith X) (c_flux c)
                 (f_add (arith X) (f_mul (arith X) (fst popt) (c_time c)) (snd popt))) lc"

definition relative_error :: "('f, 'w) library \<Rightarrow> 'f lightcurve \<Rightarrow> 'f list" where
  "relative_error X lc = map (\<lambda>c. f_div (arith X) (c_flux_err c) (c_flux c)) lc"

fun fit_all :: "('f, 'w) library \<Rightarrow> 'f lightcurve list \<Rightarrow> error + ('f \<times> 'f) list" where
  "fit_all X [] = Inr []"
| "fit_all X (lc # lcs) =
     ebind (quarter_fit X lc) (\<lambda>popt. ebind (fit_all X lcs) (\<lambda>popts. Inr (popt # popts)))"

text \<open>The part of a stitched array that came from quarter \<open>i\<close>.\<close>

definition quarter_part :: "'a list list \<Rightarrow> nat \<Rightarrow> 'b list \<Rightarrow> 'b list" where
  "quarter_part lcs i ys = take (length (lcs ! i)) (drop (sum_list (map length (take i lcs))) ys)"

section \<open>What the files hold\<close>

text \<open>
  The length line 183 or line 186 records for one path (or the error of line 182 or
  line 186), the file system after the
  \<^verbatim>\<open>open(filepath, 'w')\<close> of line 182 for a path that may exist, and the rows a path
  holds (none when it does not exist).
\<close>

definition recorded_length :: "('f, 'w) library \<Rightarrow> 'f files \<Rightarrow> string \<Rightarrow> error + filelength" where
  "recorded_length X fs path =
     (case fs path of
        None \<Rightarrow> (case open_new X path of Some e \<Rightarrow> Inl e | None \<Rightarrow> Inr (ListLen [0]))
      | Some rows \<Rightarrow> (case read_csv_len X rows of Inl e \<Rightarrow> Inl e | Inr n \<Rightarrow> Inr (IntLen n)))"

definition touch :: "'f files \<Rightarrow> string \<Rightarrow> 'f files" where
  "touch fs path = (case fs path of None \<Rightarrow> fs(path \<mapsto> []) | Some rows \<Rightarrow> fs)"

definition rows_of :: "'f files \<Rightarrow> string \<Rightarrow> 'f csvrow list" where
  "rows_of fs path = (case fs path of None \<Rightarrow> [] | Some rows \<Rightarrow> rows)"

text \<open>
  The rows the stars yield, in order, up to the first exception: what the loop of
  \<open>collect_curves_tofiles\<close> has written when it stops.
\<close>

fun star_rows ::
  "'f globals \<Rightarrow> ('f, 'w) library \<Rightarrow> int \<Rightarrow> string \<Rightarrow> bool \<Rightarrow> bool \<Rightarrow> int list \<Rightarrow> int list \<Rightarrow> 'w
     \<Rightarrow> ('f csvrow \<times> 'f csvrow \<times> 'f csvrow) list \<times> (error + 'w)" where
  "star_rows G X n_timesteps downsize_method phase_fold smooth transit_ids [] w = ([], Inr w)"
| "star_rows G X n_timesteps downsize_method phase_fold smooth transit_ids (star # rest) w =
     (case tofiles_star G X n_timesteps downsize_method phase_fold smooth transit_ids star w of
        Inl e \<Rightarrow> ([], Inl e)
      | Inr (rows, w') \<Rightarrow>
          (case star_rows G X n_timesteps downsize_method phase_fold smooth transit_ids rest w' of
             (done, out) \<Rightarrow> (rows # done, out)))"

section \<open>Contracts of the random generator\<close>

text \<open>
  What numpy documents for \<^verbatim>\<open>np.random.choice(a, size=k)\<close> and
  \<^verbatim>\<open>np.random.permutation(n)\<close>: \<open>k\<close> values drawn from \<open>a\<close>, and the numbers below
  \<open>n\<close> in some order.
\<close>

definition choice_contract :: "('f, 'w) library \<Rightarrow> bool" where
  "choice_contract X \<longleftrightarrow>
     (\<forall>a k w ids w'. random_choice X a k w = Inr (ids, w') \<longrightarrow> int (length ids) = k \<and> set ids \<subseteq> set a)"

definition permutation_contract :: "('f, 'w) library \<Rightarrow> bool" where
  "permutation_contract X \<longleftrightarrow>
     (\<forall>n w p w'. random_permutation X n w = Inr (p, w') \<longrightarrow> mset p = mset [0..<n])"

text \<open>Every row of a two-dimensional array has \<open>m\<close> values.\<close>

definition row_width :: "nat \<Rightarrow> 'a list list \<Rightarrow> bool" where
  "row_width m arr = list_all (\<lambda>row. length row = m) arr"

section \<open>Sample inputs\<close>

text \<open>
  A float type for evaluating the definitions on sample inputs: exact rationals with
  the two infinities and NaN. It rounds nothing, so it agrees with float64 only where
  float64 is exact; the theorems are about every \<open>float_ops\<close>.
\<close>

datatype xfloat = Fin rat | PosInf | NegInf | NaN

fun xf_neg :: "xfloat \<Rightarrow> xfloat" where
  "xf_neg (Fin a) = Fin (- a)"
| "xf_neg PosInf = NegInf"
| "xf_neg NegInf = PosInf"
| "xf_neg NaN = NaN"

fun xf_add :: "xfloat \<Rightarrow> xfloat \<Rightarrow> xfloat" where
  "xf_add (Fin a) (Fin b) = Fin (a + b)"
| "xf_add NaN y = NaN"
| "xf_add x NaN = NaN"
| "xf_add PosInf NegInf = NaN"
| "xf_add NegInf PosInf = NaN"
| "xf_add PosInf y = PosInf"
| "xf_add x PosInf = PosInf"
| "xf_add NegInf y = NegInf"
| "xf_add x NegInf = NegInf"

definition xf_sub :: "xfloat \<Rightarrow> xfloat \<Rightarrow> xfloat" where
  "xf_sub x y = xf_add x (xf_neg y)"

definition xf_signed_inf :: "rat \<Rightarrow> xfloat" where
  "xf_signed_inf s = (if 0 < s then PosInf else if s < 0 then NegInf else NaN)"

fun xf_sgn :: "xfloat \<Rightarrow> rat" where
  "xf_sgn (Fin a) = sgn a"
| "xf_sgn PosInf = 1"
| "xf_sgn NegInf = - 1"
| "xf_sgn NaN = 0"

fun xf_mul :: "xfloat \<Rightarrow> xfloat \<Rightarrow> xfloat" where
  "xf_mul (Fin a) (Fin b) = Fin (a * b)"
| "xf_mul NaN y = NaN"
| "xf_mul x NaN = NaN"
| "xf_mul x y = xf_signed_inf (xf_sgn x * xf_sgn y)"

fun xf_div :: "xfloat \<Rightarrow> xfloat \<Rightarrow> xfloat" where
  "xf_div (Fin a) (Fin b) = (if b = 0 then xf_signed_inf (sgn a) else Fin (a / b))"
| "xf_div NaN y = NaN"
| "xf_div x NaN = NaN"
| "xf_div (Fin a) y = Fin 0"
| "xf_div x (Fin b) = xf_signed_inf (xf_sgn x * (if b < 0 then - 1 else 1))"
| "xf_div x y = NaN"

fun xf_to_int :: "xfloat \<Rightarrow> error + int" where
  "xf_to_int (Fin a) = Inr (if 0 \<le> a then \<lfloor>a\<rfloor> else \<lceil>a\<rceil>)"
| "xf_to_int NaN = Inl (ValueError ''cannot convert float NaN to integer'')"
| "xf_to_int x = Inl (OverflowError ''cannot convert float infinity to integer'')"

fun xf_isfinite :: "xfloat \<Rightarrow> bool" where
  "xf_isfinite (Fin a) = True"
| "xf_isfinite x = False"

fun xf_gt :: "xfloat \<Rightarrow> xfloat \<Rightarrow> bool" where
  "xf_gt (Fin a) (Fin b) = (b < a)"
| "xf_gt NaN y = False"
| "xf_gt x NaN = False"
| "xf_gt PosInf y = (y \<noteq> PosInf)"
| "xf_gt x NegInf = (x \<noteq> NegInf)"
| "xf_gt x y = False"

definition xf_eq :: "xfloat \<Rightarrow> xfloat \<Rightarrow> bool" where
  "xf_eq x y = (x \<noteq> NaN \<and> x = y)"

fun xf_str :: "xfloat \<Rightarrow> string" where
  "xf_str (Fin a) = str_int \<lfloor>a\<rfloor> @ ''.'' @ str_nat (nat \<lfloor>(a - of_int \<lfloor>a\<rfloor>) * 10\<rfloor>)"
| "xf_str PosInf = ''inf''"
| "xf_str NegInf = ''-inf''"
| "xf_str NaN = ''nan''"

definition xfloat_ops :: "xfloat float_ops" where
  "xfloat_ops =
     \<lparr> f_add = xf_add, f_sub = xf_sub, f_mul = xf_mul, f_div = xf_div,
       f_of_int = (\<lambda>i. Fin (of_int i)), f_to_int = xf_to_int,
       f_isnan = (\<lambda>x. x = NaN), f_isfinite = xf_isfinite,
       f_gt = xf_gt, f_eq = xf_eq, f_nan = NaN, f_str = xf_str \<rparr>"

text \<open>
  A stand-in for scipy's fit: the line through the first and the last point, which is
  the least-squares line when the points lie on a line. Fewer than two points cannot
  determine two parameters, and non-finite data is refused.
\<close>

definition line_fit ::
  "(xfloat list \<Rightarrow> xfloat \<Rightarrow> xfloat \<Rightarrow> xfloat list) \<Rightarrow> xfloat list \<Rightarrow> xfloat list \<Rightarrow> error + (xfloat \<times> xfloat)" where
  "line_fit f xs ys =
     (if \<not> list_all xf_isfinite (xs @ ys) then Inl (ValueError ''array must not contain infs or NaNs'')
      else if length xs < 2 then Inl (TypeError ''The number of func parameters must not exceed the number of data points'')
      else let a = xf_div (xf_sub (last ys) (hd ys)) (xf_sub (last xs) (hd xs))
           in Inr (a, xf_sub (hd ys) (xf_mul a (hd xs))))"

fun xf_interp :: "(xfloat \<times> xfloat) list \<Rightarrow> xfloat \<Rightarrow> xfloat" where
  "xf_interp [] x = NaN"
| "xf_interp [(x0, y0)] x = y0"
| "xf_interp ((x0, y0) # (x1, y1) # ps) x =
     (if \<not> xf_gt x x0 then y0
      else if \<not> xf_gt x x1
      then xf_add y0 (xf_div (xf_mul (xf_sub y1 y0) (xf_sub x x0)) (xf_sub x1 x0))
      else xf_interp ((x1, y1) # ps) x)"

definition xf_linspace_at :: "xfloat \<Rightarrow> xfloat \<Rightarrow> nat \<Rightarrow> nat \<Rightarrow> xfloat" where
  "xf_linspace_at start stop num k =
     (if num \<le> 1 then start
      else xf_add start (xf_mul (Fin (of_nat k)) (xf_div (xf_sub stop start) (Fin (of_nat (num - 1))))))"

text \<open>
  A library over \<open>xfloat\<close> whose world counts the calls made so far. The archive is
  the function \<open>sky\<close>, the KOI table is \<open>koi\<close>; the random choice walks round the
  population starting at the call count, the permutation reverses; pandas refuses a
  file with no rows, as it does with EmptyDataError; the only directory is \<^verbatim>\<open>out\<close>.
\<close>

definition sample_library ::
  "(int \<Rightarrow> error + xfloat lightcurve list option) \<Rightarrow> koi_row list \<Rightarrow> (xfloat, nat) library" where
  "sample_library sky koi =
     \<lparr> arith = xfloat_ops,
       curve_fit = line_fit,
       interp_at = (\<lambda>xp fp. xf_interp (zip xp fp)),
       linspace_at = xf_linspace_at,
       random_choice = (\<lambda>a k w.
          if k < 0 then Inl (ValueError ''negative dimensions are not allowed'')
          else if a = [] \<and> 0 < k then Inl (ValueError ''a cannot be empty unless no samples are taken'')
          else Inr (map (\<lambda>j. a ! ((w + j) mod length a)) [0..<nat k], Suc w)),
       random_permutation = (\<lambda>n w. Inr (rev [0..<n], Suc w)),
       read_koi_table = (\<lambda>w. Inr (koi, w)),
       search_download = (\<lambda>star w. ebind (sky star) (\<lambda>c. Inr (c, Suc w))),
       read_csv_len = (\<lambda>rows.
          if rows = [] then Inl (LibraryError ''EmptyDataError: No columns to parse from file'')
          else Inr (length rows)),
       open_new = (\<lambda>path.
          if take 4 path = ''out/'' then None
          else Some (OSError ''FileNotFoundError: No such file or directory'')),
       bls_fold = (\<lambda>c. Inl (LibraryError ''no periodogram'')) \<rparr>"

definition cad :: "rat \<Rightarrow> rat \<Rightarrow> rat \<Rightarrow> rat \<Rightarrow> xfloat cadence" where
  "cad t f e q = \<lparr> c_time = Fin t, c_flux = Fin f, c_flux_err = Fin e, c_quality = Fin q \<rparr>"


text \<open>
  A two-quarter collection, an archive that holds stars 7 and 9, answers \<^verbatim>\<open>None\<close> for
  star 5 and fails for any other, and a KOI table.
\<close>

definition sample_quarters :: "xfloat lightcurve list" where
  "sample_quarters = [[cad 0 2 1 0, cad 1 4 1 0, cad 2 6 3 8], [cad 3 10 5 0, cad 4 20 5 0]]"

definition sample_sky :: "int \<Rightarrow> error + xfloat lightcurve list option" where
  "sample_sky star =
     (if star = 7 then Inr (Some sample_quarters)
      else if star = 9 then Inr (Some [[cad 0 2 1 0, cad 1 4 1 0]])
      else if star = 5 then Inr None
      else Inl (LibraryError ''HTTPError''))"

definition sample_koi :: "koi_row list" where
  "sample_koi = [\<lparr> kepid = 7, koi_disposition = ''CONFIRMED'' \<rparr>,
                 \<lparr> kepid = 9, koi_disposition = ''FALSE POSITIVE'' \<rparr>,
                 \<lparr> kepid = 4, koi_disposition = ''FALSE POSITIVE'' \<rparr>,
                 \<lparr> kepid = 3, koi_disposition = ''CANDIDATE'' \<rparr>]"

definition X0 :: "(xfloat, nat) library" where
  "X0 = sample_library sample_sky sample_koi"

text \<open>The same library with a generator whose permutation moves every index down by one.\<close>

definition X2 :: "(xfloat, nat) library" where
  "X2 = X0\<lparr> random_permutation := (\<lambda>n w. Inr (rotate1 [0..<n], Suc w)) \<rparr>"

text \<open>
  The globals after a caller has bound the missing name, as in
  \<^verbatim>\<open>utils.stitch_quarters = utils.stitch\<close>.
\<close>

definition patched_globals :: "('f, 'w) library \<Rightarrow> 'f globals" where
  "patched_globals X = module_globals(''stitch_quarters'' \<mapsto> StitchFn (stitch_obj X))"

text \<open>
  The three paths of a call with \<open>savepath = out\<close>, \<open>n_timesteps = 3\<close> and
  \<open>pct_transit = 50\<close>, a file of one row, and the file system an interrupted first
  call leaves when its flux file is then deleted: two files, both empty.
\<close>

definition out_flux :: string where
  "out_flux = filepath_of X0 ''out'' ''flux'' 3 (Fin 50)"

definition out_time :: string where
  "out_time = filepath_of X0 ''out'' ''time'' 3 (Fin 50)"

definition out_labels :: string where
  "out_labels = filepath_of X0 ''out'' ''labels'' 3 (Fin 50)"

definition one_row :: "xfloat csvrow list" where
  "one_row = [[FloatCell (Fin 1)]]"

definition half_made :: "xfloat files" where
  "half_made = [out_time \<mapsto> [], out_labels \<mapsto> []]"

section \<open>The error monad\<close>

lemma ebind_Inr [simp]: "ebind (Inr x) f = f x"
  by (simp add: ebind_def)

lemma ebind_Inl [simp]: "ebind (Inl e) f = Inl e"
  by (simp add: ebind_def)

lemma ebind_eq_Inr: "ebind m f = Inr y \<longleftrightarrow> (\<exists>x. m = Inr x \<and> f x = Inr y)"
  by (cases m) simp_all

lemma wbind_Inr [simp]: "wbind (Inr (x, w)) f = f x w"
  by (simp add: wbind_def)

lemma wbind_Inl [simp]: "wbind (Inl e) f = Inl e"
  by (simp add: wbind_def)

lemma wbind_eq_Inr: "wbind m f = Inr r \<longleftrightarrow> (\<exists>x w. m = Inr (x, w) \<and> f x w = Inr r)"
  by (cases m) auto

lemma lift_e_Inr [simp]: "lift_e (Inr x) w = Inr (x, w)"
  by (simp add: lift_e_def)

lemma lift_e_Inl [simp]: "lift_e (Inl e) w = Inl e"
  by (simp add: lift_e_def)

lemma lift_e_eq_Inr: "lift_e m w = Inr (x, w') \<longleftrightarrow> m = Inr x \<and> w' = w"
  by (cases m) auto

section \<open>stitch\<close>

lemma np_elementwise_same: "length xs = length ys \<Longrightarrow> np_elementwise f xs ys = Inr (map2 f xs ys)"
  by (simp add: np_elementwise_def)

lemma np_select_map:
  "np_select (map g lc) (map p lc) = Inr (map g (filter p lc))"
  by (simp add: np_select_def zip_map_map) (induction lc; simp)

lemma stitch_step_eq:
  "stitch_step X (tt, tf, te, tq) lc =
     ebind (quarter_fit X lc) (\<lambda>popt.
       Inr (tt @ lc_time lc, tf @ detrended X lc popt, te @ relative_error X lc, tq @ lc_quality lc))"
proof -
  have sel_t: "np_select (lc_time lc) (map (\<lambda>v. \<not> f_isnan (arith X) v) (lc_flux lc))
      = Inr (map c_time (filter (\<lambda>c. \<not> f_isnan (arith X) (c_flux c)) lc))"
    using np_select_map [of c_time lc "\<lambda>c. \<not> f_isnan (arith X) (c_flux c)"]
    by (simp add: lc_time_def lc_flux_def comp_def)
  have sel_f: "np_select (lc_flux lc) (map (\<lambda>v. \<not> f_isnan (arith X) v) (lc_flux lc))
      = Inr (map c_flux (filter (\<lambda>c. \<not> f_isnan (arith X) (c_flux c)) lc))"
    using np_select_map [of c_flux lc "\<lambda>c. \<not> f_isnan (arith X) (c_flux c)"]
    by (simp add: lc_flux_def comp_def)
  have rel: "np_divide X (lc_flux_err lc) (lc_flux lc) = Inr (relative_error X lc)"
    by (simp add: np_divide_def np_elementwise_same lc_flux_err_def lc_flux_def relative_error_def
        zip_map_map zip_same_conv_map) 
  have nrm: "np_divide X (lc_flux lc) (linear_func X (lc_time lc) (fst popt) (snd popt)) = Inr (detrended X lc popt)" for popt
    by (simp add: np_divide_def np_elementwise_same lc_flux_def lc_time_def linear_func_def
        detrended_def zip_map_map zip_same_conv_map)
  show ?thesis
    by (simp add: stitch_step_def Let_def rel sel_t sel_f nrm quarter_fit_def)
qed

lemma stitch_loop_eq:
  "stitch_loop X (tt, tf, te, tq) lcs =
     ebind (fit_all X lcs) (\<lambda>popts.
       Inr (tt @ concat (map lc_time lcs), tf @ concat (map2 (detrended X) lcs popts),
            te @ concat (map (relative_error X) lcs), tq @ concat (map lc_quality lcs)))"
proof (induction lcs arbitrary: tt tf te tq)
  case Nil
  show ?case by simp
next
  case (Cons lc lcs)
  show ?case
  proof (cases "quarter_fit X lc")
    case (Inl e)
    then show ?thesis by (simp add: stitch_step_eq)
  next
    case (Inr popt)
    show ?thesis
    proof (cases "fit_all X lcs")
      case (Inl e)
      then show ?thesis using Inr by (simp add: stitch_step_eq Cons.IH)
    next
      case r: (Inr popts)
      then show ?thesis using Inr by (simp add: stitch_step_eq Cons.IH)
    qed
  qed
qed

lemma stitch_eq:
  "stitch X lcs =
     ebind (fit_all X lcs) (\<lambda>popts.
       Inr (concat (map lc_time lcs), concat (map2 (detrended X) lcs popts),
            concat (map (relative_error X) lcs), concat (map lc_quality lcs)))"
  by (simp add: stitch_def stitch_loop_eq)

lemma fit_all_length: "fit_all X lcs = Inr popts \<Longrightarrow> length popts = length lcs"
  by (induction lcs arbitrary: popts) (auto simp: ebind_eq_Inr)

lemma fit_all_nth:
  "fit_all X lcs = Inr popts \<Longrightarrow> i < length lcs \<Longrightarrow> quarter_fit X (lcs ! i) = Inr (popts ! i)"
proof (induction lcs arbitrary: popts i)
  case Nil
  then show ?case by simp
next
  case (Cons lc lcs)
  then show ?case by (cases i) (auto simp: ebind_eq_Inr)
qed

lemma X0_fields:
  "arith X0 = xfloat_ops"
  "curve_fit X0 = line_fit"
  "interp_at X0 = (\<lambda>xp fp. xf_interp (zip xp fp))"
  "linspace_at X0 = xf_linspace_at"
  "random_choice X0 = (\<lambda>a k w.
      if k < 0 then Inl (ValueError ''negative dimensions are not allowed'')
      else if a = [] \<and> 0 < k then Inl (ValueError ''a cannot be empty unless no samples are taken'')
      else Inr (map (\<lambda>j. a ! ((w + j) mod length a)) [0..<nat k], Suc w))"
  "random_permutation X0 = (\<lambda>n w. Inr (rev [0..<n], Suc w))"
  "read_koi_table X0 = (\<lambda>w. Inr (sample_koi, w))"
  "search_download X0 = (\<lambda>star w. ebind (sample_sky star) (\<lambda>c. Inr (c, Suc w)))"
  "read_csv_len X0 = (\<lambda>rows.
      if rows = [] then Inl (LibraryError ''EmptyDataError: No columns to parse from file'')
      else Inr (length rows))"
  "open_new X0 = (\<lambda>path.
      if take 4 path = ''out/'' then None
      else Some (OSError ''FileNotFoundError: No such file or directory''))"
  by (simp_all add: X0_def sample_library_def)

lemmas sample_simps = X0_fields xfloat_ops_def cad_def sample_quarters_def
  sample_sky_def sample_koi_def line_fit_def xf_sub_def xf_signed_inf_def xf_eq_def xf_linspace_at_def

lemmas code_simps = stitch_def stitch_step_def np_divide_def np_elementwise_def np_select_def
  np_assign_where_def linear_func_def lc_time_def lc_flux_def lc_flux_err_def lc_quality_def


lemma sample_stitch:
  "stitch X0 sample_quarters =
     Inr ([Fin 0, Fin 1, Fin 2, Fin 3, Fin 4], [Fin 1, Fin 1, Fin 1, Fin 1, Fin 1],
          [Fin (1/2), Fin (1/4), Fin (1/2), Fin (1/2), Fin (1/4)], [Fin 0, Fin 0, Fin 8, Fin 0, Fin 0])"
  by (simp add: sample_simps code_simps Let_def)

lemma concat_part:
  "map length bs = map length lcs \<Longrightarrow> i < length lcs \<Longrightarrow> quarter_part lcs i (concat bs) = bs ! i"
proof (induction bs arbitrary: lcs i)
  case Nil
  then show ?case by simp
next
  case (Cons b bs)
  then obtain lc lcs' where l: "lcs = lc # lcs'" by (cases lcs) auto
  with Cons.prems have len: "length b = length lc" and rest: "map length bs = map length lcs'"
    by simp_all
  show ?case
  proof (cases i)
    case 0
    then show ?thesis using len by (simp add: quarter_part_def l)
  next
    case (Suc j)
    with Cons.prems l have "j < length lcs'" by simp
    from Cons.IH [OF rest this] show ?thesis
      using len by (simp add: quarter_part_def l Suc)
  qed
qed

lemma length_concat_blocks:
  "map length bs = map length lcs \<Longrightarrow> length (concat bs) = sum_list (map length lcs)"
  by (simp add: length_concat)

lemma stitch_Inr_iff:
  "stitch X lcs = Inr r \<longleftrightarrow>
     (\<exists>popts. fit_all X lcs = Inr popts \<and>
        r = (concat (map lc_time lcs), concat (map2 (detrended X) lcs popts),
             concat (map (relative_error X) lcs), concat (map lc_quality lcs)))"
  by (auto simp: stitch_eq ebind_eq_Inr)

lemma map_length_detrended:
  "length popts = length lcs \<Longrightarrow> map length (map2 (detrended X) lcs popts) = map length lcs"
  by (induction lcs popts rule: list_induct2') (simp_all add: detrended_def)

lemma stitch_lengths:
  assumes "stitch X lcs = Inr (tot_time, tot_flux, tot_flux_err, tot_qual)"
  shows "length tot_time = sum_list (map length lcs)"
    and "length tot_flux = sum_list (map length lcs)"
    and "length tot_flux_err = sum_list (map length lcs)"
    and "length tot_qual = sum_list (map length lcs)"
proof -
  from assms obtain popts where fit: "fit_all X lcs = Inr popts"
    and t: "tot_time = concat (map lc_time lcs)"
    and f: "tot_flux = concat (map2 (detrended X) lcs popts)"
    and e: "tot_flux_err = concat (map (relative_error X) lcs)"
    and q: "tot_qual = concat (map lc_quality lcs)"
    by (auto simp: stitch_Inr_iff)
  have len: "length popts = length lcs" using fit by (rule fit_all_length)
  show "length tot_time = sum_list (map length lcs)"
    unfolding t by (rule length_concat_blocks) (simp add: lc_time_def)
  show "length tot_flux = sum_list (map length lcs)"
    unfolding f by (rule length_concat_blocks) (rule map_length_detrended [OF len])
  show "length tot_flux_err = sum_list (map length lcs)"
    unfolding e by (rule length_concat_blocks) (simp add: relative_error_def)
  show "length tot_qual = sum_list (map length lcs)"
    unfolding q by (rule length_concat_blocks) (simp add: lc_quality_def)
qed

text \<open>
  Claim C4. When \<open>stitch\<close> returns, each of the four arrays has as many values as the
  quarters of the collection have cadences in total; the time and the quality array
  are the quarters' columns one after the other, unchanged; the flux array is the
  quarters' detrended fluxes and the error array the quarters' relative errors, in the
  order of the collection.
\<close>

theorem stitch_concatenates:
  assumes "stitch X lcs = Inr (tot_time, tot_flux, tot_flux_err, tot_qual)"
  shows "length tot_time = sum_list (map length lcs) \<and>
         length tot_flux = sum_list (map length lcs) \<and>
         length tot_flux_err = sum_list (map length lcs) \<and>
         length tot_qual = sum_list (map length lcs) \<and>
         tot_time = concat (map lc_time lcs) \<and>
         tot_qual = concat (map lc_quality lcs) \<and>
         (\<exists>popts. fit_all X lcs = Inr popts \<and> tot_flux = concat (map2 (detrended X) lcs popts)) \<and>
         tot_flux_err = concat (map (relative_error X) lcs)"
proof -
  from assms obtain popts where "fit_all X lcs = Inr popts"
    and "tot_time = concat (map lc_time lcs)"
    and "tot_flux = concat (map2 (detrended X) lcs popts)"
    and "tot_flux_err = concat (map (relative_error X) lcs)"
    and "tot_qual = concat (map lc_quality lcs)"
    by (auto simp: stitch_Inr_iff)
  with stitch_lengths [OF assms] show ?thesis by blast
qed

theorem stitch_concatenates_witness:
  "stitch X0 sample_quarters =
     Inr ([Fin 0, Fin 1, Fin 2, Fin 3, Fin 4], [Fin 1, Fin 1, Fin 1, Fin 1, Fin 1],
          [Fin (1/2), Fin (1/4), Fin (1/2), Fin (1/2), Fin (1/4)], [Fin 0, Fin 0, Fin 8, Fin 0, Fin 0]) \<and>
   sum_list (map length sample_quarters) = 5 \<and>
   concat (map lc_time sample_quarters) = [Fin 0, Fin 1, Fin 2, Fin 3, Fin 4] \<and>
   concat (map lc_quality sample_quarters) = [Fin 0, Fin 0, Fin 8, Fin 0, Fin 0] \<and>
   concat (map (relative_error X0) sample_quarters) = [Fin (1/2), Fin (1/4), Fin (1/2), Fin (1/2), Fin (1/4)]"
proof -
  note h = sample_stitch
  from stitch_concatenates [OF h] show ?thesis using h by simp
qed

text \<open>
  Claim C5. When \<open>stitch\<close> returns, the part of the flux array that came from
  quarter \<open>i\<close> is the quarter's raw flux divided pointwise by \<open>a*x + b\<close> evaluated at
  every time of the quarter, where \<open>(a, b)\<close> is what the fit of \<open>linear_func\<close>
  returned on the times and fluxes of the cadences whose flux is not NaN.
\<close>

theorem stitch_detrends_each_quarter:
  assumes "stitch X lcs = Inr (tot_time, tot_flux, tot_flux_err, tot_qual)"
    and "i < length lcs"
  shows "\<exists>a b. quarter_fit X (lcs ! i) = Inr (a, b) \<and>
           quarter_part lcs i tot_flux =
             map2 (f_div (arith X)) (lc_flux (lcs ! i)) (linear_func X (lc_time (lcs ! i)) a b)"
proof -
  from assms(1) obtain popts where fit: "fit_all X lcs = Inr popts"
    and f: "tot_flux = concat (map2 (detrended X) lcs popts)"
    by (auto simp: stitch_Inr_iff)
  have len: "length popts = length lcs" using fit by (rule fit_all_length)
  have qf: "quarter_fit X (lcs ! i) = Inr (popts ! i)"
    using fit assms(2) by (rule fit_all_nth)
  have "quarter_part lcs i tot_flux = map2 (detrended X) lcs popts ! i"
    unfolding f using map_length_detrended [OF len] assms(2) by (rule concat_part)
  also have "\<dots> = detrended X (lcs ! i) (popts ! i)"
    using assms(2) len by simp
  also have "\<dots> = map2 (f_div (arith X)) (lc_flux (lcs ! i))
      (linear_func X (lc_time (lcs ! i)) (fst (popts ! i)) (snd (popts ! i)))"
    by (simp add: detrended_def lc_flux_def lc_time_def linear_func_def zip_map_map zip_same_conv_map)
  finally show ?thesis using qf by (metis prod.collapse)
qed

text \<open>
  Claim C10. The error array \<open>stitch\<close> returns holds, quarter after quarter, the raw
  flux error divided pointwise by the raw flux. On the sample the raw errors are
  1, 1, 3, 5, 5 and the returned ones 1/2, 1/4, 1/2, 1/2, 1/4.
\<close>

theorem stitch_flux_err_is_relative:
  assumes "stitch X lcs = Inr (tot_time, tot_flux, tot_flux_err, tot_qual)"
  shows "tot_flux_err =
           concat (map (\<lambda>lc. map2 (f_div (arith X)) (lc_flux_err lc) (lc_flux lc)) lcs)"
proof -
  have "relative_error X lc = map2 (f_div (arith X)) (lc_flux_err lc) (lc_flux lc)" for lc
    by (simp add: relative_error_def lc_flux_err_def lc_flux_def zip_map_map zip_same_conv_map)
  then have "relative_error X = (\<lambda>lc. map2 (f_div (arith X)) (lc_flux_err lc) (lc_flux lc))"
    by (rule ext)
  then show ?thesis using assms by (auto simp: stitch_Inr_iff)
qed


theorem stitch_detrends_each_quarter_witness:
  "stitch X0 sample_quarters =
     Inr ([Fin 0, Fin 1, Fin 2, Fin 3, Fin 4], [Fin 1, Fin 1, Fin 1, Fin 1, Fin 1],
          [Fin (1/2), Fin (1/4), Fin (1/2), Fin (1/2), Fin (1/4)], [Fin 0, Fin 0, Fin 8, Fin 0, Fin 0]) \<and>
   (1::nat) < length sample_quarters \<and>
   quarter_fit X0 (sample_quarters ! 1) = Inr (Fin 10, Fin (- 20)) \<and>
   quarter_part sample_quarters 1 [Fin 1, Fin 1, Fin 1, Fin 1, Fin 1 :: xfloat] = [Fin 1, Fin 1] \<and>
   map2 (f_div (arith X0)) (lc_flux (sample_quarters ! 1))
     (linear_func X0 (lc_time (sample_quarters ! 1)) (Fin 10) (Fin (- 20))) = [Fin 1, Fin 1]"
proof -
  note h = sample_stitch
  have i: "(1::nat) < length sample_quarters" by (simp add: sample_quarters_def)
  from stitch_detrends_each_quarter [OF h i] show ?thesis
    using h i by (simp add: sample_simps code_simps quarter_fit_def quarter_part_def Let_def)
qed

theorem stitch_flux_err_is_relative_witness:
  "stitch X0 sample_quarters =
     Inr ([Fin 0, Fin 1, Fin 2, Fin 3, Fin 4], [Fin 1, Fin 1, Fin 1, Fin 1, Fin 1],
          [Fin (1/2), Fin (1/4), Fin (1/2), Fin (1/2), Fin (1/4)], [Fin 0, Fin 0, Fin 8, Fin 0, Fin 0]) \<and>
   concat (map (\<lambda>lc. map2 (f_div (arith X0)) (lc_flux_err lc) (lc_flux lc)) sample_quarters) =
     [Fin (1/2), Fin (1/4), Fin (1/2), Fin (1/2), Fin (1/4)] \<and>
   concat (map lc_flux_err sample_quarters) = [Fin 1, Fin 1, Fin 3, Fin 5, Fin 5]"
proof -
  note h = sample_stitch
  from stitch_flux_err_is_relative [OF h] show ?thesis
    using h by (simp add: sample_simps code_simps)
qed

lemma good_mask_eq:
  assumes "length flux = length time" "length flux_err = length time" "length quality = length time"
  shows "good_mask X (time, flux, flux_err, quality) =
     Inr (map (\<lambda>i. f_eq (arith X) (quality ! i) (f_of_int (arith X) 0) \<and>
                    f_gt (arith X) (flux_err ! i) (f_of_int (arith X) 0) \<and>
                    f_isfinite (arith X) (time ! i) \<and> f_isfinite (arith X) (flux ! i) \<and>
                    f_isfinite (arith X) (flux_err ! i)) [0..<length time])"
  using assms
  by (auto simp: good_mask_def Let_def np_elementwise_same intro!: nth_equalityI)

lemma set_poor_quality_nan_eq:
  assumes "length flux = length time" "length flux_err = length time" "length quality = length time"
  shows "set_poor_quality_nan X (time, flux, flux_err, quality) =
     Inr (time,
          map (\<lambda>i. if f_eq (arith X) (quality ! i) (f_of_int (arith X) 0) \<and>
                       f_gt (arith X) (flux_err ! i) (f_of_int (arith X) 0) \<and>
                       f_isfinite (arith X) (time ! i) \<and> f_isfinite (arith X) (flux ! i) \<and>
                       f_isfinite (arith X) (flux_err ! i)
                    then flux ! i else f_nan (arith X)) [0..<length time],
          flux_err, quality)"
  using assms
  by (auto simp: set_poor_quality_nan_def good_mask_eq np_assign_where_def intro!: nth_equalityI)

text \<open>
  Claim C6. On a stitched curve the marking step does not raise, leaves the time, error
  and quality arrays as they are, and replaces by NaN exactly the flux values at the
  positions where the quality is not zero, or the flux error is not greater than zero,
  or the time, the flux or the flux error is not finite; every other flux value stays.
\<close>

theorem poor_quality_set_to_nan:
  assumes "stitch X lcs = Inr (time, flux, flux_err, quality)"
  shows "\<exists>flux'. set_poor_quality_nan X (time, flux, flux_err, quality)
                    = Inr (time, flux', flux_err, quality) \<and>
           length flux' = length flux \<and>
           (\<forall>i<length flux.
              flux' ! i =
                (if \<not> f_eq (arith X) (quality ! i) (f_of_int (arith X) 0) \<or>
                    \<not> f_gt (arith X) (flux_err ! i) (f_of_int (arith X) 0) \<or>
                    \<not> f_isfinite (arith X) (time ! i) \<or> \<not> f_isfinite (arith X) (flux ! i) \<or>
                    \<not> f_isfinite (arith X) (flux_err ! i)
                 then f_nan (arith X) else flux ! i))"
proof -
  have l: "length flux = length time" "length flux_err = length time" "length quality = length time"
    using stitch_lengths [OF assms] by simp_all
  show ?thesis
    unfolding set_poor_quality_nan_eq [OF l] using l by auto
qed

theorem poor_quality_set_to_nan_witness:
  "stitch X0 sample_quarters =
     Inr ([Fin 0, Fin 1, Fin 2, Fin 3, Fin 4], [Fin 1, Fin 1, Fin 1, Fin 1, Fin 1],
          [Fin (1/2), Fin (1/4), Fin (1/2), Fin (1/2), Fin (1/4)], [Fin 0, Fin 0, Fin 8, Fin 0, Fin 0]) \<and>
   set_poor_quality_nan X0
     ([Fin 0, Fin 1, Fin 2, Fin 3, Fin 4], [Fin 1, Fin 1, Fin 1, Fin 1, Fin 1],
      [Fin (1/2), Fin (1/4), Fin (1/2), Fin (1/2), Fin (1/4)], [Fin 0, Fin 0, Fin 8, Fin 0, Fin 0]) =
     Inr ([Fin 0, Fin 1, Fin 2, Fin 3, Fin 4], [Fin 1, Fin 1, NaN, Fin 1, Fin 1],
          [Fin (1/2), Fin (1/4), Fin (1/2), Fin (1/2), Fin (1/4)], [Fin 0, Fin 0, Fin 8, Fin 0, Fin 0])"
proof -
  note h = sample_stitch
  from poor_quality_set_to_nan [OF h] show ?thesis
    using h by (simp add: sample_simps code_simps set_poor_quality_nan_def good_mask_def Let_def)
qed

section \<open>Choosing the stars\<close>

lemma np_take_permutation:
  assumes "mset p = mset [0..<length xs]"
  shows "\<exists>ys. np_take xs p = Inr ys \<and> mset ys = mset xs"
proof -
  have "set p = {0..<length xs}"
    using assms by (metis mset_eq_setD set_upt)
  then have ok: "list_all (\<lambda>j. j < length xs) p"
    by (auto simp: list_all_iff)
  have "mset (map (\<lambda>j. xs ! j) p) = image_mset (\<lambda>j. xs ! j) (mset p)" by simp
  also have "\<dots> = mset (map (\<lambda>j. xs ! j) [0..<length xs])" unfolding assms by simp
  also have "\<dots> = mset xs" by (simp add: map_nth)
  finally show ?thesis using ok by (simp add: np_take_def)
qed

text \<open>
  Claim C7. When the id selection that opens both functions returns, \<open>transit_ids\<close> is
  what \<^verbatim>\<open>np.random.choice\<close> drew from the kepids of the CONFIRMED rows with size
  \<^verbatim>\<open>int(n_curves*(pct_transit/100))\<close>, a second draw from the kepids of the FALSE
  POSITIVE rows has size \<^verbatim>\<open>int(n_curves*(1-pct_transit/100))\<close>, and the list of stars
  to process is the non-transit draw followed by the transit draw, indexed by the
  array \<^verbatim>\<open>np.random.permutation\<close> returned for its length. With a generator that
  keeps numpy's contracts the two draws have exactly these sizes, hold only ids of
  their rows, and the list is a rearrangement of the combined draws.
\<close>

theorem select_ids_counts:
  assumes "choice_contract X" and "permutation_contract X"
    and "select_ids X n_curves pct_transit w = Inr ((all_ids, transit_ids), w')"
  shows "\<exists>data w1 nontransit_ids w2 w3 perm k_nontransit k_transit.
           read_koi_table X w = Inr (data, w1) \<and>
           f_to_int (arith X)
             (f_mul (arith X) (f_of_int (arith X) n_curves)
                (f_sub (arith X) (f_of_int (arith X) 1)
                   (f_div (arith X) pct_transit (f_of_int (arith X) 100)))) = Inr k_nontransit \<and>
           random_choice X (map kepid (filter (\<lambda>r. koi_disposition r = ''FALSE POSITIVE'') data))
             k_nontransit w1 = Inr (nontransit_ids, w2) \<and>
           f_to_int (arith X)
             (f_mul (arith X) (f_of_int (arith X) n_curves)
                (f_div (arith X) pct_transit (f_of_int (arith X) 100))) = Inr k_transit \<and>
           random_choice X (map kepid (filter (\<lambda>r. koi_disposition r = ''CONFIRMED'') data))
             k_transit w2 = Inr (transit_ids, w3) \<and>
           random_permutation X (length (nontransit_ids @ transit_ids)) w3 = Inr (perm, w') \<and>
           all_ids = map (\<lambda>j. (nontransit_ids @ transit_ids) ! j) perm \<and>
           int (length nontransit_ids) = k_nontransit \<and>
           int (length transit_ids) = k_transit \<and>
           set nontransit_ids \<subseteq> kepid ` {r \<in> set data. koi_disposition r = ''FALSE POSITIVE''} \<and>
           set transit_ids \<subseteq> kepid ` {r \<in> set data. koi_disposition r = ''CONFIRMED''} \<and>
           mset perm = mset [0..<length (nontransit_ids @ transit_ids)] \<and>
           mset all_ids = mset (nontransit_ids @ transit_ids)"
proof -
  from assms(3) obtain data w1 k_nt nt w3 k_t w5 perm where
    koi: "read_koi_table X w = Inr (data, w1)"
    and knt: "size_nontransit X n_curves pct_transit = Inr k_nt"
    and c1: "random_choice X (ids_with ''FALSE POSITIVE'' data) k_nt w1 = Inr (nt, w3)"
    and kt: "size_transit X n_curves pct_transit = Inr k_t"
    and c2: "random_choice X (ids_with ''CONFIRMED'' data) k_t w3 = Inr (transit_ids, w5)"
    and pm: "random_permutation X (length (nt @ transit_ids)) w5 = Inr (perm, w')"
    and tk: "np_take (nt @ transit_ids) perm = Inr all_ids"
    unfolding select_ids_def Let_def
    by (auto simp: wbind_eq_Inr lift_e_eq_Inr)
  from assms(1) c1 have n1: "int (length nt) = k_nt" "set nt \<subseteq> set (ids_with ''FALSE POSITIVE'' data)"
    unfolding choice_contract_def by blast+
  from assms(1) c2 have n2: "int (length transit_ids) = k_t"
      "set transit_ids \<subseteq> set (ids_with ''CONFIRMED'' data)"
    unfolding choice_contract_def by blast+
  from assms(2) pm have mp: "mset perm = mset [0..<length (nt @ transit_ids)]"
    unfolding permutation_contract_def by blast
  from np_take_permutation [OF mp] tk have ms: "mset all_ids = mset (nt @ transit_ids)"
    by auto
  from tk have ai: "all_ids = map (\<lambda>j. (nt @ transit_ids) ! j) perm"
    by (auto simp: np_take_def split: if_splits)
  have s1: "set (ids_with ''FALSE POSITIVE'' data)
      = kepid ` {r \<in> set data. koi_disposition r = ''FALSE POSITIVE''}"
    and s2: "set (ids_with ''CONFIRMED'' data)
      = kepid ` {r \<in> set data. koi_disposition r = ''CONFIRMED''}"
    by (auto simp: ids_with_def)
  show ?thesis
    using koi knt [unfolded size_nontransit_def] c1 [unfolded ids_with_def]
      kt [unfolded size_transit_def] c2 [unfolded ids_with_def] pm ai n1(1) n2(1)
      n1(2) [unfolded s1] n2(2) [unfolded s2] mp ms
    by blast
qed

lemma sample_choice_contract: "choice_contract (sample_library sky koi)"
  by (auto simp: choice_contract_def sample_library_def split: if_splits)

lemma sample_permutation_contract: "permutation_contract (sample_library sky koi)"
  by (auto simp: permutation_contract_def sample_library_def)

lemmas select_simps = select_ids_def size_nontransit_def size_transit_def ids_with_def np_take_def

lemma upt_2 [simp]: "[0..<2] = [0, Suc 0]"
  by (simp add: upt_rec)

lemma sample_select_two: "select_ids X0 2 (Fin 50) 0 = Inr (([7, 9], [7]), 3)"
  by (simp add: sample_simps select_simps Let_def numeral_2_eq_2 numeral_3_eq_3)

lemma X2_fields:
  "arith X2 = xfloat_ops"
  "random_choice X2 = random_choice X0"
  "random_permutation X2 = (\<lambda>n w. Inr (rotate1 [0..<n], Suc w))"
  "read_koi_table X2 = (\<lambda>w. Inr (sample_koi, w))"
  by (simp_all add: X2_def X0_fields)

lemma X2_choice_contract: "choice_contract X2"
  using sample_choice_contract [of sample_sky sample_koi]
  by (simp add: choice_contract_def X2_fields X0_def)

lemma mset_rotate1_eq: "mset (rotate1 xs) = mset xs"
  by (cases xs) simp_all

lemma X2_permutation_contract: "permutation_contract X2"
proof (unfold permutation_contract_def, intro allI impI)
  fix n w p w'
  assume "random_permutation X2 n w = Inr (p, w')"
  then have "p = rotate1 [0..<n]" by (simp add: X2_fields)
  then show "mset p = mset [0..<n]" by (simp only: mset_rotate1_eq)
qed

lemma upt_0_4 [simp]: "[0..<4] = [0, 1, 2, 3]"
  by (simp add: upt_rec)

lemma sample_select_six: "select_ids X2 7 (Fin 40) 0 = Inr (([4, 9, 4, 7, 7, 9], [7, 7]), 3)"
  by code_simp

lemma sample_draws:
  "f_to_int (arith X2)
     (f_mul (arith X2) (f_of_int (arith X2) 7)
        (f_sub (arith X2) (f_of_int (arith X2) 1)
           (f_div (arith X2) (Fin 40) (f_of_int (arith X2) 100)))) = Inr 4"
  "random_choice X2 (map kepid (filter (\<lambda>r. koi_disposition r = ''FALSE POSITIVE'') sample_koi)) 4 0
     = Inr ([9, 4, 9, 4], 1)"
  "f_to_int (arith X2)
     (f_mul (arith X2) (f_of_int (arith X2) 7)
        (f_div (arith X2) (Fin 40) (f_of_int (arith X2) 100))) = Inr 2"
  "random_choice X2 (map kepid (filter (\<lambda>r. koi_disposition r = ''CONFIRMED'') sample_koi)) 2 1
     = Inr ([7, 7], 2)"
  "random_permutation X2 (length ([9, 4, 9, 4] @ [7, 7 :: int])) 2 = Inr ([1, 2, 3, 4, 5, 0], 3)"
  "map (\<lambda>j. ([9, 4, 9, 4] @ [7, 7 :: int]) ! j) [1, 2, 3, 4, 5, 0] = [4, 9, 4, 7, 7, 9]"
  "read_koi_table X2 0 = Inr (sample_koi, 0)"
  by code_simp+

theorem select_ids_counts_witness:
  "choice_contract X2 \<and> permutation_contract X2 \<and>
   select_ids X2 7 (Fin 40) 0 = Inr (([4, 9, 4, 7, 7, 9], [7, 7]), 3) \<and>
   read_koi_table X2 0 = Inr (sample_koi, 0) \<and>
   f_to_int (arith X2)
     (f_mul (arith X2) (f_of_int (arith X2) 7)
        (f_sub (arith X2) (f_of_int (arith X2) 1)
           (f_div (arith X2) (Fin 40) (f_of_int (arith X2) 100)))) = Inr 4 \<and>
   random_choice X2 (map kepid (filter (\<lambda>r. koi_disposition r = ''FALSE POSITIVE'') sample_koi)) 4 0
     = Inr ([9, 4, 9, 4], 1) \<and>
   f_to_int (arith X2)
     (f_mul (arith X2) (f_of_int (arith X2) 7)
        (f_div (arith X2) (Fin 40) (f_of_int (arith X2) 100))) = Inr 2 \<and>
   random_choice X2 (map kepid (filter (\<lambda>r. koi_disposition r = ''CONFIRMED'') sample_koi)) 2 1
     = Inr ([7, 7], 2) \<and>
   random_permutation X2 (length ([9, 4, 9, 4] @ [7, 7 :: int])) 2 = Inr ([1, 2, 3, 4, 5, 0], 3) \<and>
   map (\<lambda>j. ([9, 4, 9, 4] @ [7, 7 :: int]) ! j) [1, 2, 3, 4, 5, 0] = [4, 9, 4, 7, 7, 9] \<and>
   mset [4, 9, 4, 7, 7, 9 :: int] = mset ([9, 4, 9, 4] @ [7, 7])"
proof -
  note c = X2_choice_contract and p = X2_permutation_contract and h = sample_select_six
  have m: "mset [4, 9, 4, 7, 7, 9 :: int] = mset ([9, 4, 9, 4] @ [7, 7])" by simp
  show ?thesis
    using select_ids_counts [OF c p h]
    by (intro conjI) (rule c p h sample_draws m)+
qed

section \<open>Labels and lengths in collect_curves\<close>

lemma sample_select_confirmed: "select_ids X0 1 (Fin 100) 0 = Inr (([7], [7]), 3)"
  by (simp add: sample_simps select_simps Let_def)

lemma sample_select_false_positive: "select_ids X0 1 (Fin 0) 0 = Inr (([9], []), 3)"
  by (simp add: sample_simps select_simps Let_def)

lemma resolve_id: "resolve module_globals ''id'' = Inr (BuiltinObj ''id'')"
  by (simp add: resolve_def module_globals_def py_builtins_def)

lemma collect_star_label_zero:
  assumes "collect_star module_globals X downsize_method n_timesteps transit_ids star w
             = Inr ((time, flux, label), w')"
  shows "label = 0"
  using assms
  by (auto simp: collect_star_def wbind_eq_Inr lift_e_eq_Inr ebind_eq_Inr resolve_id np_contains_def
      split: prod.splits)

lemma sample_stitch_short:
  "stitch X0 [[cad 0 2 1 0, cad 1 4 1 0]] =
     Inr ([Fin 0, Fin 1], [Fin 1, Fin 1], [Fin (1/2), Fin (1/4)], [Fin 0, Fin 0])"
  by (simp add: sample_simps code_simps Let_def)

lemma sample_download_7: "search_download X0 7 w = Inr (Some sample_quarters, Suc w)"
  by (simp add: X0_fields sample_sky_def)

lemma sample_download_9: "search_download X0 9 w = Inr (Some [[cad 0 2 1 0, cad 1 4 1 0]], Suc w)"
  by (simp add: X0_fields sample_sky_def)

lemmas eval_simps = np_zeros2_def np_set_row_def np_set_item_def set_poor_quality_nan_def
  good_mask_def force_length_def py_slice_to_def resample_def np_linspace_def np_interp_def
  np_contains_def np_elementwise_def np_assign_where_def

text \<open>
  Claim C1 fails in \<open>collect_curves\<close>: line 126 tests \<^verbatim>\<open>id in transit_ids\<close>, and
  \<^verbatim>\<open>id\<close> is the builtin function, not the star. Star 7 is drawn from the CONFIRMED
  rows and its label comes back 0.
\<close>

theorem collect_curves_labels_confirmed_star_zero:
  "select_ids X0 1 (Fin 100) 0 = Inr (([7], [7]), 3) \<and>
   ids_with ''CONFIRMED'' sample_koi = [7] \<and>
   collect_curves module_globals X0 1 5 ''truncate'' (Fin 100) 0 =
     Inr (([[Fin 1, Fin 1, NaN, Fin 1, Fin 1]], [[Fin 0, Fin 1, Fin 2, Fin 3, Fin 4]], [Fin 0]), 4)"
proof -
  have star: "collect_star module_globals X0 ''truncate'' 5 [7] 7 3 =
      Inr (([Fin 0, Fin 1, Fin 2, Fin 3, Fin 4], [Fin 1, Fin 1, NaN, Fin 1, Fin 1], 0), 4)"
    unfolding collect_star_def sample_download_7 wbind_Inr stitch_obj_def option.case sample_stitch
      resolve_id
    by (simp add: eval_simps sample_simps Let_def)
  have "collect_curves module_globals X0 1 5 ''truncate'' (Fin 100) 0 =
     Inr (([[Fin 1, Fin 1, NaN, Fin 1, Fin 1]], [[Fin 0, Fin 1, Fin 2, Fin 3, Fin 4]], [Fin 0]), 4)"
    unfolding collect_curves_def sample_select_confirmed wbind_Inr prod.case
    by (simp add: star store_star_def eval_simps X0_fields xfloat_ops_def)
  then show ?thesis
    by (simp add: sample_select_confirmed ids_with_def sample_koi_def)
qed

text \<open>
  Claim C2 fails on the code for \<^verbatim>\<open>'truncate'\<close> on a curve shorter than
  \<open>n_timesteps\<close>: star 9 has two cadences, the slice of line 123 keeps both, and
  with \<open>n_timesteps = 3\<close> the curve is not brought to three values: line 128 raises
  when it assigns the two values to a row of three.
\<close>

theorem truncate_short_curve_raises:
  "select_ids X0 1 (Fin 0) 0 = Inr (([9], []), 3) \<and>
   stitch X0 [[cad 0 2 1 0, cad 1 4 1 0]] =
     Inr ([Fin 0, Fin 1], [Fin 1, Fin 1], [Fin (1/2), Fin (1/4)], [Fin 0, Fin 0]) \<and>
   force_length X0 ''truncate'' 3 ([Fin 0, Fin 1], [Fin 1, Fin 1]) = Inr ([Fin 0, Fin 1], [Fin 1, Fin 1]) \<and>
   length [Fin 1, Fin 1 :: xfloat] \<noteq> nat 3 \<and>
   collect_curves module_globals X0 1 3 ''truncate'' (Fin 0) 0 =
     Inl (ValueError ''could not broadcast input array'')"
proof -
  have fl: "force_length X0 ''truncate'' 3 ([Fin 0, Fin 1], [Fin 1, Fin 1]) = Inr ([Fin 0, Fin 1], [Fin 1, Fin 1])"
    by (simp add: force_length_def py_slice_to_def)
  have star: "collect_star module_globals X0 ''truncate'' 3 [] 9 3 =
      Inr (([Fin 0, Fin 1], [Fin 1, Fin 1], 0), 4)"
    unfolding collect_star_def sample_download_9 wbind_Inr stitch_obj_def option.case
      sample_stitch_short resolve_id
    by (simp add: eval_simps sample_simps Let_def)
  have "collect_curves module_globals X0 1 3 ''truncate'' (Fin 0) 0 =
     Inl (ValueError ''could not broadcast input array'')"
    unfolding collect_curves_def sample_select_false_positive wbind_Inr prod.case
    by (simp add: star store_star_def eval_simps X0_fields xfloat_ops_def)
  then show ?thesis
    using fl by (simp add: sample_select_false_positive sample_stitch_short)
qed

lemma np_linspace_Inr: "0 \<le> num \<Longrightarrow> \<exists>xs. np_linspace X start stop num = Inr xs \<and> length xs = nat num"
  by (simp add: np_linspace_def)

lemma resample_eq_Inr:
  "resample X n ys = Inr ys' \<Longrightarrow> length ys' = nat n"
  by (auto simp: resample_def Let_def np_linspace_def np_interp_def ebind_eq_Inr split: if_splits)

lemma resample_returns:
  "0 \<le> n \<Longrightarrow> ys \<noteq> [] \<Longrightarrow> \<exists>ys'. resample X n ys = Inr ys' \<and> length ys' = nat n"
  by (simp add: resample_def Let_def np_linspace_def np_interp_def)

lemma resample_empty:
  "0 \<le> n \<Longrightarrow> resample X n [] = Inl (ValueError ''array of sample points is empty'')"
  by (simp add: resample_def Let_def np_linspace_def np_interp_def)

lemma force_length_interpolate_Inr:
  "force_length X ''interpolate'' n (time, flux) = Inr (time', flux') \<Longrightarrow>
     length time' = nat n \<and> length flux' = nat n"
  by (auto simp: force_length_def ebind_eq_Inr dest: resample_eq_Inr)

lemma force_length_interpolate_returns:
  assumes "0 \<le> n" "time \<noteq> []" "flux \<noteq> []"
  shows "\<exists>time' flux'. force_length X ''interpolate'' n (time, flux) = Inr (time', flux') \<and>
           length time' = nat n \<and> length flux' = nat n"
proof -
  from resample_returns [OF assms(1,3)] obtain flux' where
    f: "resample X n flux = Inr flux'" "length flux' = nat n" by blast
  from resample_returns [OF assms(1,2)] obtain time' where
    t: "resample X n time = Inr time'" "length time' = nat n" by blast
  show ?thesis using f t by (simp add: force_length_def)
qed

lemma force_length_truncate:
  "force_length X ''truncate'' n (time, flux) = Inr (py_slice_to n time, py_slice_to n flux)"
  by (simp add: force_length_def)

lemma length_py_slice_to: "0 \<le> n \<Longrightarrow> length (py_slice_to n ys) = min (nat n) (length ys)"
  by (simp add: py_slice_to_def min_def)

lemma np_set_row_width:
  assumes "row_width m arr" "np_set_row arr i v = Inr arr'"
  shows "row_width m arr' \<and> length arr' = length arr"
proof -
  from assms(2) have i: "i < length arr" by (auto simp: np_set_row_def split: if_splits)
  with assms(1) have w: "length (arr ! i) = m" by (simp add: row_width_def list_all_length)
  from assms(2) i obtain v' where "arr' = arr[i := v']" "length v' = m"
    using w by (auto simp: np_set_row_def split: if_splits)
  with assms(1) i show ?thesis
    by (auto simp: row_width_def list_all_length nth_list_update)
qed

lemma store_star_width:
  assumes "row_width m all_curves" "row_width m all_times"
    and "store_star X (all_curves, all_times, all_labels) i r = Inr (all_curves', all_times', all_labels')"
  shows "row_width m all_curves' \<and> row_width m all_times'"
  using assms
  by (auto simp: store_star_def ebind_eq_Inr split: prod.splits dest: np_set_row_width)

lemma collect_loop_width:
  assumes "collect_loop G X dm n tids ids (all_curves, all_times, all_labels) i w
             = Inr ((all_curves', all_times', all_labels'), w')"
    and "row_width m all_curves" "row_width m all_times"
  shows "row_width m all_curves' \<and> row_width m all_times'"
  using assms
proof (induction ids arbitrary: all_curves all_times all_labels i w)
  case Nil
  then show ?case by simp
next
  case (Cons star rest)
  from Cons.prems(1) obtain r w1 tabs where
    st: "store_star X (all_curves, all_times, all_labels) i r = Inr tabs"
    and lp: "collect_loop G X dm n tids rest tabs (i + 1) w1 = Inr ((all_curves', all_times', all_labels'), w')"
    by (auto simp: wbind_eq_Inr lift_e_eq_Inr)
  obtain c t l where tabs: "tabs = (c, t, l)" by (cases tabs) auto
  from store_star_width [OF Cons.prems(2,3) st [unfolded tabs]]
  have "row_width m c" "row_width m t" by simp_all
  from Cons.IH [OF lp [unfolded tabs] this] show ?case .
qed

lemma collect_curves_width:
  assumes "collect_curves G X n_curves n_timesteps downsize_method pct_transit w
             = Inr ((all_curves, all_times, all_labels), w')"
  shows "row_width (nat n_timesteps) all_curves \<and> row_width (nat n_timesteps) all_times"
proof -
  from assms obtain all_ids transit_ids w1 c0 t0 where
    z1: "np_zeros2 X (length all_ids) n_timesteps = Inr c0"
    and z2: "np_zeros2 X (length all_ids) n_timesteps = Inr t0"
    and lp: "collect_loop G X downsize_method n_timesteps transit_ids all_ids
               (c0, t0, replicate (length all_ids) (f_of_int (arith X) 0)) 0 w1
             = Inr ((all_curves, all_times, all_labels), w')"
    by (auto simp: collect_curves_def wbind_eq_Inr lift_e_eq_Inr Let_def split: prod.splits)
  from z1 have "row_width (nat n_timesteps) c0"
    by (auto simp: np_zeros2_def row_width_def list_all_length split: if_splits)
  moreover from z2 have "row_width (nat n_timesteps) t0"
    by (auto simp: np_zeros2_def row_width_def list_all_length split: if_splits)
  ultimately show ?thesis using collect_loop_width [OF lp] by blast
qed


lemma tofiles_star_interpolate_width:
  assumes "tofiles_star G X n ''interpolate'' False smooth tids star w
             = Inr ((flux_row, time_row, label_row), w')"
  shows "length flux_row = nat n \<and> length time_row = nat n \<and> length label_row = 1"
proof -
  from assms obtain a tf where
    fl: "force_length X ''interpolate'' n (fst a, fst (snd a)) = Inr tf"
    and rows: "flux_row = map FloatCell (snd tf)" "time_row = map FloatCell (fst tf)"
       "length label_row = 1"
    by (auto simp: tofiles_star_def Let_def wbind_eq_Inr lift_e_eq_Inr ebind_eq_Inr
        split: prod.splits if_splits)
  from force_length_interpolate_Inr [of X n "fst a" "fst (snd a)" "fst tf" "snd tf"] fl
  show ?thesis using rows by simp
qed

text \<open>
  What the two methods do to the lengths. With \<^verbatim>\<open>'interpolate'\<close> a curve that is not
  empty comes out with exactly \<open>n_timesteps\<close> time and flux values and an empty one
  raises ValueError; with \<^verbatim>\<open>'truncate'\<close> both arrays are sliced and hold the smaller of
  \<open>n_timesteps\<close> and their length; a row of the two arrays \<open>collect_curves\<close> returns
  always has \<open>n_timesteps\<close> values, since any other assignment raises.
\<close>

lemma resized_lengths:
  "(0 \<le> n_timesteps \<and> time \<noteq> [] \<and> flux \<noteq> [] \<longrightarrow>
      (\<exists>time' flux'. force_length X ''interpolate'' n_timesteps (time, flux) = Inr (time', flux') \<and>
         length time' = nat n_timesteps \<and> length flux' = nat n_timesteps)) \<and>
   (0 \<le> n_timesteps \<longrightarrow>
      resample X n_timesteps [] = Inl (ValueError ''array of sample points is empty'')) \<and>
   force_length X ''truncate'' n_timesteps (time, flux)
     = Inr (py_slice_to n_timesteps time, py_slice_to n_timesteps flux) \<and>
   (0 \<le> n_timesteps \<longrightarrow>
      length (py_slice_to n_timesteps time) = min (nat n_timesteps) (length time) \<and>
      length (py_slice_to n_timesteps flux) = min (nat n_timesteps) (length flux)) \<and>
   (collect_curves G X n_curves n_timesteps downsize_method pct_transit w
      = Inr ((all_curves, all_times, all_labels), w') \<longrightarrow>
      list_all (\<lambda>row. length row = nat n_timesteps) all_curves \<and>
      list_all (\<lambda>row. length row = nat n_timesteps) all_times) \<and>
   (tofiles_star G' X n_timesteps ''interpolate'' False smooth transit_ids star w1
      = Inr ((flux_row, time_row, label_row), w2) \<longrightarrow>
      length flux_row = nat n_timesteps \<and> length time_row = nat n_timesteps)"
  using force_length_interpolate_returns [of n_timesteps time flux X]
    resample_empty [of n_timesteps X]
    force_length_truncate [of X n_timesteps time flux]
    length_py_slice_to [of n_timesteps time] length_py_slice_to [of n_timesteps flux]
    collect_curves_width [of G X n_curves n_timesteps downsize_method pct_transit w
      all_curves all_times all_labels w']
    tofiles_star_interpolate_width [of G' X n_timesteps smooth transit_ids star w1
      flux_row time_row label_row w2]
  unfolding row_width_def by blast



lemma resolve_patched: "resolve (patched_globals X) ''stitch_quarters'' = Inr (StitchFn (stitch_obj X))"
  by (simp add: resolve_def patched_globals_def)

lemma upt_0_3 [simp]: "[0..<3] = [0, 1, 2]"
  by (simp add: upt_rec)

lemma sample_force_interpolate:
  "force_length X0 ''interpolate'' 3 ([Fin 0, Fin 1], [Fin 1, Fin 1])
     = Inr ([Fin 0, Fin (1/2), Fin 1], [Fin 1, Fin 1, Fin 1])"
  by (simp add: eval_simps sample_simps Let_def)

lemma sample_collect_interpolate:
  "collect_curves module_globals X0 1 3 ''interpolate'' (Fin 100) 0
     = Inr (([[Fin 1, NaN, Fin 1]], [[Fin 0, Fin 2, Fin 4]], [Fin 0]), 4)"
proof -
  have star: "collect_star module_globals X0 ''interpolate'' 3 [7] 7 3 =
      Inr (([Fin 0, Fin 2, Fin 4], [Fin 1, NaN, Fin 1], 0), 4)"
    unfolding collect_star_def sample_download_7 wbind_Inr stitch_obj_def option.case sample_stitch
      resolve_id
    by (simp add: eval_simps sample_simps Let_def)
  show ?thesis
    unfolding collect_curves_def sample_select_confirmed wbind_Inr prod.case
    by (simp add: star store_star_def eval_simps X0_fields xfloat_ops_def)
qed

lemma sample_tofiles_star_patched:
  "tofiles_star (patched_globals X0) X0 3 ''interpolate'' False False [7] 7 3
     = Inr (([FloatCell (Fin 1), FloatCell NaN, FloatCell (Fin 1)],
             [FloatCell (Fin 0), FloatCell (Fin 2), FloatCell (Fin 4)], [IntCell 1]), 4)"
  unfolding tofiles_star_def sample_download_7 wbind_Inr resolve_patched ebind_Inr call_stitch_def
    pyobj.case stitch_obj_def option.case sample_stitch
  by (simp add: eval_simps sample_simps Let_def)

lemma resized_lengths_sample:
  "(0::int) \<le> 3 \<and>
   force_length X0 ''interpolate'' 3 ([Fin 0, Fin 1], [Fin 1, Fin 1])
     = Inr ([Fin 0, Fin (1/2), Fin 1], [Fin 1, Fin 1, Fin 1]) \<and>
   force_length X0 ''truncate'' 3 ([Fin 0, Fin 1], [Fin 1, Fin 1]) = Inr ([Fin 0, Fin 1], [Fin 1, Fin 1]) \<and>
   collect_curves module_globals X0 1 3 ''interpolate'' (Fin 100) 0
     = Inr (([[Fin 1, NaN, Fin 1]], [[Fin 0, Fin 2, Fin 4]], [Fin 0]), 4) \<and>
   tofiles_star (patched_globals X0) X0 3 ''interpolate'' False False [7] 7 3
     = Inr (([FloatCell (Fin 1), FloatCell NaN, FloatCell (Fin 1)],
             [FloatCell (Fin 0), FloatCell (Fin 2), FloatCell (Fin 4)], [IntCell 1]), 4)"
  using resized_lengths [of 3 "[Fin 0, Fin 1]" "[Fin 1, Fin 1]" X0 module_globals 1 "''interpolate''"
      "Fin 100" 0 "[[Fin 1, NaN, Fin 1]]" "[[Fin 0, Fin 2, Fin 4]]" "[Fin 0]" 4
      "patched_globals X0" False "[7]" 7 3
      "[FloatCell (Fin 1), FloatCell NaN, FloatCell (Fin 1)]"
      "[FloatCell (Fin 0), FloatCell (Fin 2), FloatCell (Fin 4)]" "[IntCell 1]" 4]
    sample_force_interpolate sample_collect_interpolate sample_tofiles_star_patched
  by (simp add: force_length_truncate py_slice_to_def)

section \<open>The file check\<close>

lemma filepath_of_neq:
  "filepath_of X sp ''flux'' n pct \<noteq> filepath_of X sp ''time'' n pct"
  "filepath_of X sp ''flux'' n pct \<noteq> filepath_of X sp ''labels'' n pct"
  "filepath_of X sp ''time'' n pct \<noteq> filepath_of X sp ''labels'' n pct"
  "filepath_of X sp ''time'' n pct \<noteq> filepath_of X sp ''flux'' n pct"
  "filepath_of X sp ''labels'' n pct \<noteq> filepath_of X sp ''flux'' n pct"
  "filepath_of X sp ''labels'' n pct \<noteq> filepath_of X sp ''time'' n pct"
  by (simp_all add: filepath_of_def)

lemma measure_files_Cons:
  assumes "recorded_length X fs (filepath_of X sp tag n pct) = Inr l"
  shows "measure_files X sp n pct (tag # tags) fps fls fs
           = measure_files X sp n pct tags (fps @ [filepath_of X sp tag n pct]) (fls @ [l])
               (touch fs (filepath_of X sp tag n pct))"
  using assms
  by (auto simp: recorded_length_def touch_def Let_def split: option.splits sum.splits)

lemma recorded_length_touch_other:
  "p \<noteq> q \<Longrightarrow> recorded_length X (touch fs p) q = recorded_length X fs q"
  by (simp add: recorded_length_def touch_def split: option.splits)

lemma measure_files_three:
  assumes p: "p1 = filepath_of X sp ''flux'' n pct" "p2 = filepath_of X sp ''time'' n pct"
      "p3 = filepath_of X sp ''labels'' n pct"
    and l: "recorded_length X fs p1 = Inr l1" "recorded_length X fs p2 = Inr l2"
      "recorded_length X fs p3 = Inr l3"
  shows "measure_files X sp n pct [''flux'', ''time'', ''labels''] [] [] fs
           = (touch (touch (touch fs p1) p2) p3, Inr ([p1, p2, p3], [l1, l2, l3]))"
proof -
  have d: "p1 \<noteq> p2" "p1 \<noteq> p3" "p2 \<noteq> p3"
    unfolding p by (rule filepath_of_neq)+
  have s1: "measure_files X sp n pct [''flux'', ''time'', ''labels''] [] [] fs
      = measure_files X sp n pct [''time'', ''labels''] [p1] [l1] (touch fs p1)"
    using measure_files_Cons [of X fs sp "''flux''" n pct l1] l(1) by (simp add: p)
  have l2': "recorded_length X (touch fs p1) p2 = Inr l2"
    using l(2) d by (simp add: recorded_length_touch_other)
  have s2: "measure_files X sp n pct [''time'', ''labels''] [p1] [l1] (touch fs p1)
      = measure_files X sp n pct [''labels''] [p1, p2] [l1, l2] (touch (touch fs p1) p2)"
    using measure_files_Cons [of X "touch fs p1" sp "''time''" n pct l2] l2' by (simp add: p)
  have l3': "recorded_length X (touch (touch fs p1) p2) p3 = Inr l3"
    using l(3) d by (simp add: recorded_length_touch_other)
  have s3: "measure_files X sp n pct [''labels''] [p1, p2] [l1, l2] (touch (touch fs p1) p2)
      = (touch (touch (touch fs p1) p2) p3, Inr ([p1, p2, p3], [l1, l2, l3]))"
    using measure_files_Cons [of X "touch (touch fs p1) p2" sp "''labels''" n pct l3] l3'
    by (simp add: p)
  show ?thesis by (simp only: s1 s2 s3)
qed

lemma check_files_three:
  assumes p: "p1 = filepath_of X sp ''flux'' n pct" "p2 = filepath_of X sp ''time'' n pct"
      "p3 = filepath_of X sp ''labels'' n pct"
    and l: "recorded_length X fs p1 = Inr l1" "recorded_length X fs p2 = Inr l2"
      "recorded_length X fs p3 = Inr l3"
  shows "check_files X sp n pct fs
           = (touch (touch (touch fs p1) p2) p3,
              if l2 = l1 \<and> l3 = l1 then Inr [p1, p2, p3]
              else Inl (RowsException [p1, p2, p3] [l1, l2, l3]))"
  unfolding check_files_def measure_files_three [OF p l]
  by (simp add: same_lengths_def)


lemma recorded_length_None:
  "fs p = None \<Longrightarrow> open_new X p = None \<Longrightarrow> recorded_length X fs p = Inr (ListLen [0])"
  by (simp add: recorded_length_def)

lemma recorded_length_Some:
  "fs p = Some rows \<Longrightarrow> read_csv_len X rows = Inr k \<Longrightarrow> recorded_length X fs p = Inr (IntLen k)"
  by (simp add: recorded_length_def)

lemma recorded_length_cases:
  assumes "recorded_length X fs p = Inr l"
  shows "(fs p = None \<and> l = ListLen [0]) \<or> (\<exists>rows k. fs p = Some rows \<and> l = IntLen k)"
  using assms by (auto simp: recorded_length_def split: option.splits sum.splits)

lemma touch_None: "fs p = None \<Longrightarrow> touch fs p = fs(p \<mapsto> [])"
  by (simp add: touch_def)

lemma touch_Some: "fs p = Some rows \<Longrightarrow> touch fs p = fs"
  by (simp add: touch_def)

lemma touch_other: "p \<noteq> q \<Longrightarrow> touch fs p q = fs q"
  by (simp add: touch_def split: option.splits)

lemma tofiles_check_error:
  assumes "select_ids X n_curves pct w = Inr (sel, w1)"
    and "check_files X sp n pct fs = (fs1, Inl e)"
  shows "collect_curves_tofiles G X n_curves n dm pf sm pct sp fs w = (fs1, Inl e)"
  using assms by (cases sel) (simp add: collect_curves_tofiles_def)

lemma out_neq:
  "out_flux \<noteq> out_time" "out_flux \<noteq> out_labels" "out_time \<noteq> out_labels"
  "out_time \<noteq> out_flux" "out_labels \<noteq> out_flux" "out_labels \<noteq> out_time"
  unfolding out_flux_def out_time_def out_labels_def by (rule filepath_of_neq)+

lemma sample_read_empty:
  "read_csv_len X0 [] = Inl (LibraryError ''EmptyDataError: No columns to parse from file'')"
  by (simp add: X0_fields)

lemma sample_open_out: "open_new X0 (filepath_of X0 ''out'' tag n pct) = None"
  by (simp add: X0_fields filepath_of_def)

lemma sample_open_paths:
  "open_new X0 out_flux = None" "open_new X0 out_time = None" "open_new X0 out_labels = None"
  unfolding out_flux_def out_time_def out_labels_def by (rule sample_open_out)+

text \<open>
  Claim C8 fails on the code when an existing file is empty, which is how line 182
  itself leaves every file it creates: with the flux file missing and the other two
  empty, the call creates the flux file and then \<^verbatim>\<open>pd.read_csv\<close> raises EmptyDataError
  on the time file, so the comparison of line 187 and the exception of line 188 are
  never reached.
\<close>

theorem empty_existing_file_raises_read_error:
  "half_made out_flux = None \<and> half_made out_time = Some [] \<and> half_made out_labels = Some [] \<and>
   check_files X0 ''out'' 3 (Fin 50) half_made
     = (half_made(out_flux \<mapsto> []),
        Inl (LibraryError ''EmptyDataError: No columns to parse from file''))"
proof -
  have "measure_files X0 ''out'' 3 (Fin 50) [''flux'', ''time'', ''labels''] [] [] half_made
      = (half_made(out_flux \<mapsto> []), Inl (LibraryError ''EmptyDataError: No columns to parse from file''))"
    unfolding measure_files.simps Let_def out_flux_def [symmetric] out_time_def [symmetric]
      out_labels_def [symmetric]
    by (simp add: half_made_def out_neq sample_open_paths sample_read_empty)
  then show ?thesis
    by (simp add: check_files_def half_made_def out_neq)
qed

text \<open>
  The same happens on the second call of an interrupted first one, with all three
  files there and empty; and a missing directory makes line 182 raise.
\<close>

lemma all_empty_files_raise_read_error:
  "snd (check_files X0 ''out'' 3 (Fin 50) [out_flux \<mapsto> [], out_time \<mapsto> [], out_labels \<mapsto> []])
     = Inl (LibraryError ''EmptyDataError: No columns to parse from file'')"
proof -
  have "measure_files X0 ''out'' 3 (Fin 50) [''flux'', ''time'', ''labels''] [] []
          [out_flux \<mapsto> [], out_time \<mapsto> [], out_labels \<mapsto> []]
      = ([out_flux \<mapsto> [], out_time \<mapsto> [], out_labels \<mapsto> []],
         Inl (LibraryError ''EmptyDataError: No columns to parse from file''))"
    unfolding measure_files.simps Let_def out_flux_def [symmetric] out_time_def [symmetric]
      out_labels_def [symmetric]
    by (simp add: out_neq sample_read_empty)
  then show ?thesis by (simp add: check_files_def)
qed

lemma missing_directory_raises:
  "check_files X0 ''nowhere'' 3 (Fin 50) Map.empty
     = (Map.empty, Inl (OSError ''FileNotFoundError: No such file or directory''))"
  by (simp add: check_files_def Let_def X0_fields filepath_of_def)

section \<open>The loop of collect_curves_tofiles\<close>

lemma resolve_missing:
  "resolve module_globals ''stitch_quarters'' = Inl (NameError ''stitch_quarters'')"
  "resolve module_globals ''medfilt'' = Inl (NameError ''medfilt'')"
  "resolve module_globals ''binned_statistic'' = Inl (NameError ''binned_statistic'')"
  by (simp_all add: resolve_def module_globals_def py_builtins_def)

lemma tofiles_star_module:
  "tofiles_star module_globals X n dm pf sm tids star w =
     (case search_download X star w of
        Inl e \<Rightarrow> Inl e
      | Inr r \<Rightarrow> Inl (NameError ''stitch_quarters''))"
  by (simp add: tofiles_star_def Let_def resolve_missing wbind_def split: sum.splits prod.splits)

lemma tofiles_loop_module_fs:
  "fst (tofiles_loop module_globals X n dm pf sm tids paths ids fs w) = fs"
  by (cases ids) (simp_all add: tofiles_star_module split: sum.splits)

lemma measure_files_paths:
  "measure_files X sp n pct tags fps fls fs = (fs', Inr (fps', fls')) \<Longrightarrow>
     fps' = fps @ map (\<lambda>t. filepath_of X sp t n pct) tags"
proof (induction tags arbitrary: fps fls fs)
  case Nil
  then show ?case by simp
next
  case (Cons tag tags)
  let ?p = "filepath_of X sp tag n pct"
  show ?case
  proof (cases "fs ?p")
    case None
    with Cons.prems have "measure_files X sp n pct tags (fps @ [?p]) (fls @ [ListLen [0]])
        (fs(?p \<mapsto> [])) = (fs', Inr (fps', fls'))"
      by (cases "open_new X ?p") (simp_all add: Let_def)
    from Cons.IH [OF this] show ?thesis by simp
  next
    case (Some rows)
    with Cons.prems obtain k where
      "measure_files X sp n pct tags (fps @ [?p]) (fls @ [IntLen k]) fs = (fs', Inr (fps', fls'))"
      by (auto simp: Let_def split: sum.splits)
    from Cons.IH [OF this] show ?thesis by simp
  qed
qed

lemma check_files_paths:
  assumes "check_files X sp n pct fs = (fs1, Inr filepaths)"
  shows "filepaths = [filepath_of X sp ''flux'' n pct, filepath_of X sp ''time'' n pct,
                      filepath_of X sp ''labels'' n pct]"
proof -
  from assms obtain fls where
    "measure_files X sp n pct [''flux'', ''time'', ''labels''] [] [] fs = (fs1, Inr (filepaths, fls))"
    by (auto simp: check_files_def split: prod.splits sum.splits if_splits)
  from measure_files_paths [OF this] show ?thesis by simp
qed

lemma rows_of_create: "fs p = None \<Longrightarrow> rows_of (fs(p \<mapsto> [])) q = rows_of fs q"
  by (simp add: rows_of_def)

lemma measure_files_rows:
  "rows_of (fst (measure_files X sp n pct tags fps fls fs)) q = rows_of fs q"
proof (induction tags arbitrary: fps fls fs)
  case Nil
  show ?case by simp
next
  case (Cons tag tags)
  let ?p = "filepath_of X sp tag n pct"
  show ?case
  proof (cases "fs ?p")
    case None
    have "rows_of (fst (measure_files X sp n pct tags (fps @ [?p]) (fls @ [ListLen [0]])
        (fs(?p \<mapsto> [])))) q = rows_of (fs(?p \<mapsto> [])) q"
      by (rule Cons.IH)
    also have "\<dots> = rows_of fs q" using None by (rule rows_of_create)
    finally show ?thesis using None by (cases "open_new X ?p") (simp_all add: Let_def)
  next
    case (Some rows)
    then show ?thesis
      by (cases "read_csv_len X rows") (simp_all add: Let_def Cons.IH)
  qed
qed

lemma check_files_rows:
  "rows_of (fst (check_files X sp n pct fs)) q = rows_of fs q"
  using measure_files_rows [of X sp n pct "[''flux'', ''time'', ''labels'']" "[]" "[]" fs q]
  by (auto simp: check_files_def split: prod.splits sum.splits)

lemma tofiles_module_rows:
  "rows_of (fst (collect_curves_tofiles module_globals X n_curves n dm pf sm pct sp fs w)) q
     = rows_of fs q"
proof (cases "select_ids X n_curves pct w")
  case (Inl e)
  then show ?thesis by (simp add: collect_curves_tofiles_def)
next
  case (Inr r)
  obtain all_ids tids w1 where r: "r = ((all_ids, tids), w1)" by (cases r) auto
  obtain fs1 out where c: "check_files X sp n pct fs = (fs1, out)" by (cases "check_files X sp n pct fs")
  have fs1: "rows_of fs1 q = rows_of fs q"
    using check_files_rows [of X sp n pct fs q] c by simp
  show ?thesis
  proof (cases out)
    case (Inl e)
    then show ?thesis using Inr r c fs1 by (simp add: collect_curves_tofiles_def)
  next
    case ok: (Inr filepaths)
    from check_files_paths [OF c [unfolded ok]] obtain p1 p2 p3 where "filepaths = [p1, p2, p3]"
      by blast
    then show ?thesis
      using Inr r c ok fs1 by (simp add: collect_curves_tofiles_def tofiles_loop_module_fs)
  qed
qed

text \<open>
  Claim C3, amended. The module binds none of \<^verbatim>\<open>stitch_quarters\<close>, \<^verbatim>\<open>medfilt\<close> and
  \<^verbatim>\<open>binned_statistic\<close>. A call that gets past the file check with at least one star
  raises NameError for \<^verbatim>\<open>stitch_quarters\<close> as soon as the download of the first star
  has returned; and whatever a call does, every path holds the rows it held before.
\<close>

theorem tofiles_first_star_name_error:
  "resolve module_globals ''stitch_quarters'' = Inl (NameError ''stitch_quarters'') \<and>
   resolve module_globals ''medfilt'' = Inl (NameError ''medfilt'') \<and>
   resolve module_globals ''binned_statistic'' = Inl (NameError ''binned_statistic'') \<and>
   (select_ids X n_curves pct_transit w0 = Inr ((star # rest, transit_ids), w1) \<and>
    check_files X savepath n_timesteps pct_transit fs = (fs1, Inr filepaths) \<and>
    search_download X star w1 = Inr (curve, w2) \<longrightarrow>
      collect_curves_tofiles module_globals X n_curves n_timesteps downsize_method phase_fold smooth
        pct_transit savepath fs w0 = (fs1, Inl (NameError ''stitch_quarters''))) \<and>
   rows_of (fst (collect_curves_tofiles module_globals X n_curves n_timesteps downsize_method
                   phase_fold smooth pct_transit savepath fs w0)) path
     = rows_of fs path"
proof (intro conjI impI)
  assume a: "select_ids X n_curves pct_transit w0 = Inr ((star # rest, transit_ids), w1) \<and>
    check_files X savepath n_timesteps pct_transit fs = (fs1, Inr filepaths) \<and>
    search_download X star w1 = Inr (curve, w2)"
  then have c: "check_files X savepath n_timesteps pct_transit fs = (fs1, Inr filepaths)" by simp
  from check_files_paths [OF c] obtain p1 p2 p3 where "filepaths = [p1, p2, p3]" by blast
  with a show "collect_curves_tofiles module_globals X n_curves n_timesteps downsize_method
      phase_fold smooth pct_transit savepath fs w0 = (fs1, Inl (NameError ''stitch_quarters''))"
    by (simp add: collect_curves_tofiles_def tofiles_star_module)
qed (simp_all add: resolve_missing tofiles_module_rows)

lemma sample_select_none: "select_ids X0 0 (Fin 50) 0 = Inr (([], []), 3)"
  by (simp add: sample_simps select_simps Let_def)

lemma sample_select_failing: "select_ids X0 2 (Fin 0) 0 = Inr (([4, 9], []), 3)"
  by (simp add: sample_simps select_simps Let_def)

lemma check_files_fresh:
  assumes "open_new X (filepath_of X sp ''flux'' n pct) = None"
    and "open_new X (filepath_of X sp ''time'' n pct) = None"
    and "open_new X (filepath_of X sp ''labels'' n pct) = None"
  shows "check_files X sp n pct Map.empty
     = ([filepath_of X sp ''flux'' n pct \<mapsto> [], filepath_of X sp ''time'' n pct \<mapsto> [],
         filepath_of X sp ''labels'' n pct \<mapsto> []],
        Inr [filepath_of X sp ''flux'' n pct, filepath_of X sp ''time'' n pct,
             filepath_of X sp ''labels'' n pct])"
proof -
  have l: "recorded_length X Map.empty (filepath_of X sp ''flux'' n pct) = Inr (ListLen [0])"
    "recorded_length X Map.empty (filepath_of X sp ''time'' n pct) = Inr (ListLen [0])"
    "recorded_length X Map.empty (filepath_of X sp ''labels'' n pct) = Inr (ListLen [0])"
    using assms by (simp_all add: recorded_length_def)
  show ?thesis
    unfolding check_files_three [OF refl refl refl l]
    by (simp add: touch_def filepath_of_neq)
qed

lemma sample_check_out:
  "check_files X0 ''out'' n pct Map.empty
     = ([filepath_of X0 ''out'' ''flux'' n pct \<mapsto> [], filepath_of X0 ''out'' ''time'' n pct \<mapsto> [],
         filepath_of X0 ''out'' ''labels'' n pct \<mapsto> []],
        Inr [filepath_of X0 ''out'' ''flux'' n pct, filepath_of X0 ''out'' ''time'' n pct,
             filepath_of X0 ''out'' ''labels'' n pct])"
  by (rule check_files_fresh) (rule sample_open_out)+

text \<open>
  Claim C3 as stated fails in two ways: with \<open>n_curves = 0\<close> the loop has no star and
  the call returns normally; and when the download of the first star raises, that
  error comes out, not a NameError.
\<close>

theorem tofiles_no_name_error_counterexample:
  "select_ids X0 0 (Fin 50) 0 = Inr (([], []), 3) \<and>
   snd (collect_curves_tofiles module_globals X0 0 3 ''interpolate'' False False (Fin 50) ''out''
          Map.empty 0) = Inr 3 \<and>
   select_ids X0 2 (Fin 0) 0 = Inr (([4, 9], []), 3) \<and>
   search_download X0 4 3 = Inl (LibraryError ''HTTPError'') \<and>
   snd (collect_curves_tofiles module_globals X0 2 3 ''interpolate'' False False (Fin 0) ''out''
          Map.empty 0) = Inl (LibraryError ''HTTPError'')"
proof -
  have a: "snd (collect_curves_tofiles module_globals X0 0 3 ''interpolate'' False False (Fin 50) ''out''
          Map.empty 0) = Inr 3"
    unfolding collect_curves_tofiles_def sample_select_none sample_check_out by simp
  have d: "search_download X0 4 3 = Inl (LibraryError ''HTTPError'')"
    by (simp add: X0_fields sample_sky_def)
  have b: "snd (collect_curves_tofiles module_globals X0 2 3 ''interpolate'' False False (Fin 0) ''out''
          Map.empty 0) = Inl (LibraryError ''HTTPError'')"
    unfolding collect_curves_tofiles_def sample_select_failing sample_check_out
    by (simp add: tofiles_star_module d)
  show ?thesis using a b d by (simp add: sample_select_none sample_select_failing)
qed

lemma sample_check_fresh:
  "check_files X0 ''out'' 3 (Fin 50) Map.empty
     = ([out_flux \<mapsto> [], out_time \<mapsto> [], out_labels \<mapsto> []], Inr [out_flux, out_time, out_labels])"
  unfolding out_flux_def out_time_def out_labels_def by (rule sample_check_out)

theorem tofiles_first_star_name_error_witness:
  "select_ids X0 2 (Fin 50) 0 = Inr (([7, 9], [7]), 3) \<and>
   check_files X0 ''out'' 3 (Fin 50) Map.empty
     = ([out_flux \<mapsto> [], out_time \<mapsto> [], out_labels \<mapsto> []], Inr [out_flux, out_time, out_labels]) \<and>
   search_download X0 7 3 = Inr (Some sample_quarters, 4) \<and>
   collect_curves_tofiles module_globals X0 2 3 ''interpolate'' False False (Fin 50) ''out'' Map.empty 0
     = ([out_flux \<mapsto> [], out_time \<mapsto> [], out_labels \<mapsto> []], Inl (NameError ''stitch_quarters'')) \<and>
   rows_of [out_flux \<mapsto> [], out_time \<mapsto> [], out_labels \<mapsto> []] out_flux = ([] :: xfloat csvrow list)"
proof -
  note h = sample_select_two sample_check_fresh sample_download_7 [of 3]
  have "collect_curves_tofiles module_globals X0 2 3 ''interpolate'' False False (Fin 50) ''out'' Map.empty 0
     = ([out_flux \<mapsto> [], out_time \<mapsto> [], out_labels \<mapsto> []], Inl (NameError ''stitch_quarters''))"
    by (rule tofiles_first_star_name_error [where X = X0 and n_curves = 2 and pct_transit = "Fin 50"
      and ?w0.0 = 0 and star = 7 and rest = "[9]" and transit_ids = "[7]" and ?w1.0 = 3
      and savepath = "''out''" and n_timesteps = 3 and fs = Map.empty
      and filepaths = "[out_flux, out_time, out_labels]" and curve = "Some sample_quarters"
      and ?w2.0 = 4 and path = out_flux,
      THEN conjunct2, THEN conjunct2, THEN conjunct2, THEN conjunct1, THEN mp])
      (simp add: h)
  then show ?thesis using h by (simp add: rows_of_def)
qed

lemma rows_of_writerow:
  "rows_of (writerow fs p row) q = (if q = p then rows_of fs p @ [row] else rows_of fs q)"
  by (simp add: rows_of_def writerow_def)

lemma tofiles_loop_rows:
  assumes d: "p1 \<noteq> p2" "p1 \<noteq> p3" "p2 \<noteq> p3"
    and run: "tofiles_loop G X n dm pf sm tids (p1, p2, p3) ids fs w = (fs', out)"
    and sr: "star_rows G X n dm pf sm tids ids w = (done, out')"
  shows "out' = out \<and>
         rows_of fs' p1 = rows_of fs p1 @ map fst done \<and>
         rows_of fs' p2 = rows_of fs p2 @ map (fst \<circ> snd) done \<and>
         rows_of fs' p3 = rows_of fs p3 @ map (snd \<circ> snd) done"
  using run sr
proof (induction ids arbitrary: fs w "done")
  case Nil
  then show ?case by auto
next
  case (Cons star rest)
  show ?case
  proof (cases "tofiles_star G X n dm pf sm tids star w")
    case (Inl e)
    with Cons.prems show ?thesis by auto
  next
    case (Inr r)
    obtain flux_row time_row label_row w1 where r: "r = ((flux_row, time_row, label_row), w1)"
      by (cases r) auto
    let ?fs1 = "writerow (writerow (writerow fs p1 flux_row) p2 time_row) p3 label_row"
    from Cons.prems(1) Inr r
    have run': "tofiles_loop G X n dm pf sm tids (p1, p2, p3) rest ?fs1 w1 = (fs', out)"
      by simp
    obtain done1 where sr': "star_rows G X n dm pf sm tids rest w1 = (done1, out')"
      and dn: "done = (flux_row, time_row, label_row) # done1"
      using Cons.prems(2) Inr r by (auto split: prod.splits)
    from Cons.IH [OF run' sr'] d show ?thesis
      by (simp add: dn rows_of_writerow)
  qed
qed

lemma star_rows_facts:
  assumes "star_rows G X n dm pf sm tids ids w = (done, out)"
  shows "length done \<le> length ids \<and>
         (\<forall>j<length done. \<exists>wj wj'. tofiles_star G X n dm pf sm tids (ids ! j) wj = Inr (done ! j, wj')) \<and>
         (case out of
            Inl e \<Rightarrow> length done < length ids \<and>
                      (\<exists>wk. tofiles_star G X n dm pf sm tids (ids ! length done) wk = Inl e)
          | Inr w' \<Rightarrow> length done = length ids)"
  using assms
proof (induction ids arbitrary: w "done")
  case Nil
  then show ?case by auto
next
  case (Cons star rest)
  show ?case
  proof (cases "tofiles_star G X n dm pf sm tids star w")
    case (Inl e)
    with Cons.prems show ?thesis by auto
  next
    case (Inr r)
    obtain rows w1 where r: "r = (rows, w1)" by (cases r) auto
    obtain done1 where sr': "star_rows G X n dm pf sm tids rest w1 = (done1, out)"
      and dn: "done = rows # done1"
      using Cons.prems Inr r by (auto split: prod.splits)
    from Cons.IH [OF sr'] have ih:
      "length done1 \<le> length rest"
      "\<forall>j<length done1. \<exists>wj wj'. tofiles_star G X n dm pf sm tids (rest ! j) wj = Inr (done1 ! j, wj')"
      "case out of
            Inl e \<Rightarrow> length done1 < length rest \<and>
                      (\<exists>wk. tofiles_star G X n dm pf sm tids (rest ! length done1) wk = Inl e)
          | Inr w' \<Rightarrow> length done1 = length rest"
      by simp_all
    have "\<forall>j<length done. \<exists>wj wj'. tofiles_star G X n dm pf sm tids ((star # rest) ! j) wj = Inr (done ! j, wj')"
    proof (intro allI impI)
      fix j assume "j < length done"
      then show "\<exists>wj wj'. tofiles_star G X n dm pf sm tids ((star # rest) ! j) wj = Inr (done ! j, wj')"
        using ih(2) Inr r dn by (cases j) auto
    qed
    then show ?thesis using ih(1,3) dn by (auto split: sum.splits)
  qed
qed


text \<open>
  Claim C9. When a call that got past the file check ends with an exception, the
  exception was raised by the star after the last one that was processed, and each of
  the three files holds what it held after the check followed by one row for each
  processed star, in order: its flux row, its time row, its label row.
\<close>

theorem rows_survive_exception:
  assumes "select_ids X n_curves pct_transit w0 = Inr ((all_ids, transit_ids), w1)"
    and "check_files X savepath n_timesteps pct_transit fs = (fs1, Inr [p1, p2, p3])"
    and "collect_curves_tofiles G X n_curves n_timesteps downsize_method phase_fold smooth
           pct_transit savepath fs w0 = (fs', Inl e)"
  shows "\<exists>done. done = fst (star_rows G X n_timesteps downsize_method phase_fold smooth
                          transit_ids all_ids w1) \<and>
           length done < length all_ids \<and>
           (\<forall>j<length done. \<exists>wj wj'.
              tofiles_star G X n_timesteps downsize_method phase_fold smooth transit_ids
                (all_ids ! j) wj = Inr (done ! j, wj')) \<and>
           (\<exists>wk. tofiles_star G X n_timesteps downsize_method phase_fold smooth transit_ids
                   (all_ids ! length done) wk = Inl e) \<and>
           rows_of fs' p1 = rows_of fs1 p1 @ map fst done \<and>
           rows_of fs' p2 = rows_of fs1 p2 @ map (fst \<circ> snd) done \<and>
           rows_of fs' p3 = rows_of fs1 p3 @ map (snd \<circ> snd) done"
proof -
  from check_files_paths [OF assms(2)]
  have p: "p1 = filepath_of X savepath ''flux'' n_timesteps pct_transit"
    "p2 = filepath_of X savepath ''time'' n_timesteps pct_transit"
    "p3 = filepath_of X savepath ''labels'' n_timesteps pct_transit"
    by simp_all
  have d: "p1 \<noteq> p2" "p1 \<noteq> p3" "p2 \<noteq> p3"
    unfolding p by (rule filepath_of_neq)+
  from assms have run: "tofiles_loop G X n_timesteps downsize_method phase_fold smooth transit_ids
      (p1, p2, p3) all_ids fs1 w1 = (fs', Inl e)"
    by (simp add: collect_curves_tofiles_def)
  obtain "done" out where sr: "star_rows G X n_timesteps downsize_method phase_fold smooth
      transit_ids all_ids w1 = (done, out)"
    by (cases "star_rows G X n_timesteps downsize_method phase_fold smooth transit_ids all_ids w1")
  from tofiles_loop_rows [OF d run sr]
  have out: "out = Inl e"
    and rows: "rows_of fs' p1 = rows_of fs1 p1 @ map fst done"
      "rows_of fs' p2 = rows_of fs1 p2 @ map (fst \<circ> snd) done"
      "rows_of fs' p3 = rows_of fs1 p3 @ map (snd \<circ> snd) done"
    by simp_all
  from star_rows_facts [OF sr [unfolded out]]
  have "length done < length all_ids"
    and "\<forall>j<length done. \<exists>wj wj'.
              tofiles_star G X n_timesteps downsize_method phase_fold smooth transit_ids
                (all_ids ! j) wj = Inr (done ! j, wj')"
    and "\<exists>wk. tofiles_star G X n_timesteps downsize_method phase_fold smooth transit_ids
                   (all_ids ! length done) wk = Inl e"
    by simp_all
  with rows sr show ?thesis by simp
qed

lemma sample_select_four: "select_ids X0 4 (Fin 50) 0 = Inr (([7, 7, 4, 9], [7, 7]), 3)"
  by (simp add: sample_simps select_simps Let_def)

lemma sample_tofiles_star_7:
  "7 \<in> set tids \<Longrightarrow>
   tofiles_star (patched_globals X0) X0 3 ''interpolate'' False False tids 7 w
     = Inr (([FloatCell (Fin 1), FloatCell NaN, FloatCell (Fin 1)],
             [FloatCell (Fin 0), FloatCell (Fin 2), FloatCell (Fin 4)], [IntCell 1]), Suc w)"
  unfolding tofiles_star_def sample_download_7 wbind_Inr resolve_patched ebind_Inr call_stitch_def
    pyobj.case stitch_obj_def option.case sample_stitch
  by (simp add: eval_simps sample_simps Let_def)

lemma sample_tofiles_star_4:
  "tofiles_star G X0 n dm pf sm tids 4 w = Inl (LibraryError ''HTTPError'')"
  by (simp add: tofiles_star_def Let_def X0_fields sample_sky_def)

theorem rows_survive_exception_witness:
  "select_ids X0 4 (Fin 50) 0 = Inr (([7, 7, 4, 9], [7, 7]), 3) \<and>
   check_files X0 ''out'' 3 (Fin 50) Map.empty
     = ([out_flux \<mapsto> [], out_time \<mapsto> [], out_labels \<mapsto> []], Inr [out_flux, out_time, out_labels]) \<and>
   snd (collect_curves_tofiles (patched_globals X0) X0 4 3 ''interpolate'' False False (Fin 50)
          ''out'' Map.empty 0) = Inl (LibraryError ''HTTPError'') \<and>
   fst (star_rows (patched_globals X0) X0 3 ''interpolate'' False False [7, 7] [7, 7, 4, 9] 3)
     = [([FloatCell (Fin 1), FloatCell NaN, FloatCell (Fin 1)],
         [FloatCell (Fin 0), FloatCell (Fin 2), FloatCell (Fin 4)], [IntCell 1]),
        ([FloatCell (Fin 1), FloatCell NaN, FloatCell (Fin 1)],
         [FloatCell (Fin 0), FloatCell (Fin 2), FloatCell (Fin 4)], [IntCell 1])] \<and>
   rows_of (fst (collect_curves_tofiles (patched_globals X0) X0 4 3 ''interpolate'' False False
                   (Fin 50) ''out'' Map.empty 0)) out_flux
     = [[FloatCell (Fin 1), FloatCell NaN, FloatCell (Fin 1)],
        [FloatCell (Fin 1), FloatCell NaN, FloatCell (Fin 1)]] \<and>
   rows_of (fst (collect_curves_tofiles (patched_globals X0) X0 4 3 ''interpolate'' False False
                   (Fin 50) ''out'' Map.empty 0)) out_time
     = [[FloatCell (Fin 0), FloatCell (Fin 2), FloatCell (Fin 4)],
        [FloatCell (Fin 0), FloatCell (Fin 2), FloatCell (Fin 4)]] \<and>
   rows_of (fst (collect_curves_tofiles (patched_globals X0) X0 4 3 ''interpolate'' False False
                   (Fin 50) ''out'' Map.empty 0)) out_labels
     = [[IntCell 1], [IntCell 1]]"
proof -
  let ?r = "collect_curves_tofiles (patched_globals X0) X0 4 3 ''interpolate'' False False (Fin 50)
          ''out'' Map.empty 0"
  note sel = sample_select_four and chk = sample_check_fresh
  have e: "snd ?r = Inl (LibraryError ''HTTPError'')"
    unfolding collect_curves_tofiles_def sel chk
    by (simp add: sample_tofiles_star_7 sample_tofiles_star_4)
  then have run: "?r = (fst ?r, Inl (LibraryError ''HTTPError''))"
    by (simp add: prod_eq_iff)
  have sr: "fst (star_rows (patched_globals X0) X0 3 ''interpolate'' False False [7, 7] [7, 7, 4, 9] 3)
     = [([FloatCell (Fin 1), FloatCell NaN, FloatCell (Fin 1)],
         [FloatCell (Fin 0), FloatCell (Fin 2), FloatCell (Fin 4)], [IntCell 1]),
        ([FloatCell (Fin 1), FloatCell NaN, FloatCell (Fin 1)],
         [FloatCell (Fin 0), FloatCell (Fin 2), FloatCell (Fin 4)], [IntCell 1])]"
    by (simp add: sample_tofiles_star_7 sample_tofiles_star_4)
  from rows_survive_exception [OF sel chk run] sr
  have "rows_of (fst ?r) out_flux
     = [[FloatCell (Fin 1), FloatCell NaN, FloatCell (Fin 1)],
        [FloatCell (Fin 1), FloatCell NaN, FloatCell (Fin 1)]]"
    and "rows_of (fst ?r) out_time
     = [[FloatCell (Fin 0), FloatCell (Fin 2), FloatCell (Fin 4)],
        [FloatCell (Fin 0), FloatCell (Fin 2), FloatCell (Fin 4)]]"
    and "rows_of (fst ?r) out_labels = [[IntCell 1], [IntCell 1]]"
    by (simp_all add: rows_of_def out_neq)
  with sel chk e sr show ?thesis by simp
qed

end
